theory Spec2Isabelle
  imports Complex_Main "HOL-Library.Product_Lexorder" "HOL-Library.Multiset"
begin

section \<open>Python strings\<close>

text \<open>
  A Python \<open>str\<close> is a sequence of Unicode code points. The model takes the type
  \<open>string\<close> and reads a \<open>char\<close> as the code point of the same number, U+0000 to
  U+00FF: the range that holds every character the source writes in its literals
  (the c with cedilla of the Portuguese field names and street types, the class from
  U+00C0 to U+00FF for accented letters). The predicates below are Python's on that range. Strings with code points above U+00FF are outside the model.
\<close>

definition cp :: "char \<Rightarrow> nat" where
  "cp c = of_char c"

definition py_isspace :: "char \<Rightarrow> bool" where
  \<comment> \<open>\<open>str.isspace\<close>, the separators of \<open>str.split()\<close> and \<open>str.strip()\<close>, and \<open>\s\<close> of \<open>re\<close>\<close>
  "py_isspace c = (let n = cp c in
     (9 \<le> n \<and> n \<le> 13) \<or> (28 \<le> n \<and> n \<le> 32) \<or> n = 133 \<or> n = 160)"

definition py_isdigit :: "char \<Rightarrow> bool" where
  \<comment> \<open>\<open>str.isdigit\<close>: the decimal digits and the superscript digits U+00B2, U+00B3, U+00B9\<close>
  "py_isdigit c = (let n = cp c in (48 \<le> n \<and> n \<le> 57) \<or> n = 178 \<or> n = 179 \<or> n = 185)"

definition re_digit :: "char \<Rightarrow> bool" where
  \<comment> \<open>\<open>\d\<close> of \<open>re\<close>: the decimal digits only\<close>
  "re_digit c = (let n = cp c in 48 \<le> n \<and> n \<le> 57)"

definition py_isalpha :: "char \<Rightarrow> bool" where
  "py_isalpha c = (let n = cp c in
     (65 \<le> n \<and> n \<le> 90) \<or> (97 \<le> n \<and> n \<le> 122) \<or> n = 170 \<or> n = 181 \<or> n = 186 \<or>
     (192 \<le> n \<and> n \<le> 214) \<or> (216 \<le> n \<and> n \<le> 246) \<or> (248 \<le> n \<and> n \<le> 255))"

definition re_word :: "char \<Rightarrow> bool" where
  \<comment> \<open>\<open>\w\<close> of \<open>re\<close>: alphanumeric (letters, digits, the fractions U+00BC to U+00BE) or underscore\<close>
  "re_word c = (let n = cp c in
     py_isalpha c \<or> py_isdigit c \<or> (188 \<le> n \<and> n \<le> 190) \<or> n = 95)"

definition py_lower_chr :: "char \<Rightarrow> char" where
  "py_lower_chr c = (let n = cp c in
     if (65 \<le> n \<and> n \<le> 90) \<or> (192 \<le> n \<and> n \<le> 222 \<and> n \<noteq> 215)
     then char_of (n + 32) else c)"

definition py_lower :: "string \<Rightarrow> string" where
  "py_lower s = map py_lower_chr s"

definition py_upper_chr :: "char \<Rightarrow> string" where
  \<comment> \<open>\<open>str.upper\<close> of one character. U+00DF becomes \<open>SS\<close>. Python sends U+00B5 to U+039C and
      U+00FF to U+0178, which no string of this model holds: they are left as they are
      here. Neither image is an ASCII letter, so every comparison of an upper-cased text
      with a region code is decided as in Python.\<close>
  "py_upper_chr c = (let n = cp c in
     if (97 \<le> n \<and> n \<le> 122) \<or> (224 \<le> n \<and> n \<le> 254 \<and> n \<noteq> 247)
     then [char_of (n - 32)]
     else if n = 223 then ''SS'' else [c])"

definition py_upper :: "string \<Rightarrow> string" where
  "py_upper s = concat (map py_upper_chr s)"

definition py_strip :: "string \<Rightarrow> string" where
  "py_strip s = rev (dropWhile py_isspace (rev (dropWhile py_isspace s)))"

fun split_words :: "string \<Rightarrow> string \<Rightarrow> string list" where
  \<comment> \<open>the scan of \<open>str.split()\<close>: \<open>cur\<close> is the word read so far\<close>
  "split_words cur [] = (if cur = [] then [] else [cur])"
| "split_words cur (c # cs) =
     (if py_isspace c then (if cur = [] then split_words [] cs else cur # split_words [] cs)
      else split_words (cur @ [c]) cs)"

definition py_split :: "string \<Rightarrow> string list" where
  \<comment> \<open>\<open>str.split()\<close> without arguments: the maximal runs of non-whitespace\<close>
  "py_split s = split_words [] s"

fun py_join :: "string \<Rightarrow> string list \<Rightarrow> string" where
  "py_join sep [] = []"
| "py_join sep [x] = x"
| "py_join sep (x # y # ys) = x @ sep @ py_join sep (y # ys)"

fun py_in :: "string \<Rightarrow> string \<Rightarrow> bool" where
  \<comment> \<open>\<open>sub in s\<close> for strings: \<open>sub\<close> occurs in \<open>s\<close> as a contiguous piece\<close>
  "py_in sub [] = (sub = [])"
| "py_in sub (c # cs) = (take (length sub) (c # cs) = sub \<or> py_in sub cs)"

definition py_replace_chr :: "char \<Rightarrow> char \<Rightarrow> string \<Rightarrow> string" where
  \<comment> \<open>\<open>s.replace(a, b)\<close> for one-character \<open>a\<close> and \<open>b\<close>\<close>
  "py_replace_chr a b s = map (\<lambda>c. if c = a then b else c) s"

definition py_zfill :: "nat \<Rightarrow> string \<Rightarrow> string" where
  \<comment> \<open>\<open>s.zfill(n)\<close> for a string of digits (no sign)\<close>
  "py_zfill n s = replicate (n - length s) CHR ''0'' @ s"


section \<open>Regular expressions\<close>

text \<open>
  The patterns of the source are terms of type \<open>rx\<close>, and \<open>rx_run\<close> is a backtracking
  matcher in the order of Python's \<open>re\<close>: it returns every way to match from a position,
  the one \<open>re\<close> finds first at the head of the list. A position is the character
  before it (for \<open>\b\<close> and \<open>^\<close>), the text that remains, and the groups captured so
  far. The flag \<open>ic\<close> is \<open>re.IGNORECASE\<close>. The patterns of the source repeat only
  expressions that consume at least one character; a repetition here drops an iteration
  that consumes nothing.
\<close>

datatype rx_item = ILit char | IRange char char | IDigit | IWord | ISpace

datatype rx =
    Lit char
  | Dot
  | Cls "rx_item list"
  | NCls "rx_item list"
  | Cat rx rx
  | Alt rx rx
  | Rep bool nat "nat option" rx
  | Grp string rx
  | Bol
  | Eol
  | Wb

type_synonym rx_groups = "(string \<times> string) list"
type_synonym rx_pos = "char option \<times> string \<times> rx_groups"

definition chars_between :: "char \<Rightarrow> char \<Rightarrow> string" where
  "chars_between a b = map char_of [cp a ..< Suc (cp b)]"

fun item_match :: "bool \<Rightarrow> rx_item \<Rightarrow> char \<Rightarrow> bool" where
  \<comment> \<open>under IGNORECASE a character matches when its lower case is the lower case of a member\<close>
  "item_match ic (ILit c) x = (if ic then py_lower_chr x = py_lower_chr c else x = c)"
| "item_match ic (IRange a b) x =
     (if ic then list_ex (\<lambda>c. py_lower_chr c = py_lower_chr x) (chars_between a b)
      else cp a \<le> cp x \<and> cp x \<le> cp b)"
| "item_match ic IDigit x = re_digit x"
| "item_match ic IWord x = re_word x"
| "item_match ic ISpace x = py_isspace x"

definition rx_char :: "(char \<Rightarrow> bool) \<Rightarrow> rx_pos \<Rightarrow> rx_pos list" where
  \<comment> \<open>consume one character that satisfies \<open>P\<close>\<close>
  "rx_char P st = (case st of (p, s, g) \<Rightarrow>
     (case s of [] \<Rightarrow> [] | x # xs \<Rightarrow> if P x then [(Some x, xs, g)] else []))"

definition rx_rest :: "rx_pos \<Rightarrow> string" where
  "rx_rest st = fst (snd st)"

definition advances :: "rx_pos \<Rightarrow> rx_pos \<Rightarrow> bool" where
  "advances st st' = (length (rx_rest st') < length (rx_rest st))"

fun rx_rep :: "bool \<Rightarrow> (rx_pos \<Rightarrow> rx_pos list) \<Rightarrow> nat \<Rightarrow> nat \<Rightarrow> rx_pos \<Rightarrow> rx_pos list" where
  \<comment> \<open>\<open>m\<close> iterations that must match, then up to \<open>k\<close> more: a greedy repetition tries one
      more iteration before it stops, a lazy one stops before it tries\<close>
  "rx_rep greedy f (Suc m) k st = concat (map (rx_rep greedy f m k) (f st))"
| "rx_rep greedy f 0 (Suc k) st =
     (let more = concat (map (rx_rep greedy f 0 k) (filter (advances st) (f st)))
      in if greedy then more @ [st] else st # more)"
| "rx_rep greedy f 0 0 st = [st]"

definition set_group :: "string \<Rightarrow> string \<Rightarrow> rx_groups \<Rightarrow> rx_groups" where
  "set_group name v g = (name, v) # filter (\<lambda>kv. fst kv \<noteq> name) g"

definition is_word_opt :: "char option \<Rightarrow> bool" where
  "is_word_opt c = (case c of None \<Rightarrow> False | Some x \<Rightarrow> re_word x)"

primrec rx_run :: "bool \<Rightarrow> rx \<Rightarrow> rx_pos \<Rightarrow> rx_pos list" where
  "rx_run ic (Lit c) st = rx_char (item_match ic (ILit c)) st"
| "rx_run ic Dot st = rx_char (\<lambda>x. x \<noteq> CHR 0x0A) st"
| "rx_run ic (Cls items) st = rx_char (\<lambda>x. list_ex (\<lambda>i. item_match ic i x) items) st"
| "rx_run ic (NCls items) st = rx_char (\<lambda>x. \<not> list_ex (\<lambda>i. item_match ic i x) items) st"
| "rx_run ic (Cat a b) st = concat (map (rx_run ic b) (rx_run ic a st))"
| "rx_run ic (Alt a b) st = rx_run ic a st @ rx_run ic b st"
| "rx_run ic (Rep greedy m n r) st =
     rx_rep greedy (rx_run ic r) m
       (case n of None \<Rightarrow> length (rx_rest st) | Some n' \<Rightarrow> n' - m) st"
| "rx_run ic (Grp name r) st =
     map (\<lambda>st'. case st' of (p', s', g') \<Rightarrow>
            (p', s', set_group name (take (length (rx_rest st) - length s') (rx_rest st)) g'))
         (rx_run ic r st)"
| "rx_run ic Bol st = (if fst st = None then [st] else [])"
| "rx_run ic Eol st = (if rx_rest st = [] \<or> rx_rest st = [CHR 0x0A] then [st] else [])"
| "rx_run ic Wb st =
     (if is_word_opt (fst st) \<noteq> is_word_opt (case rx_rest st of [] \<Rightarrow> None | x # _ \<Rightarrow> Some x)
      then [st] else [])"

text \<open>Shorthands for writing the patterns.\<close>

definition rx_seq :: "rx list \<Rightarrow> rx" where
  "rx_seq rs = foldr Cat (butlast rs) (last rs)"

definition rx_alts :: "rx list \<Rightarrow> rx" where
  "rx_alts rs = foldr Alt (butlast rs) (last rs)"

definition rx_str :: "string \<Rightarrow> rx" where
  "rx_str s = rx_seq (map Lit s)"

abbreviation rx_d :: rx where "rx_d \<equiv> Cls [IDigit]"
abbreviation rx_w :: rx where "rx_w \<equiv> Cls [IWord]"
abbreviation rx_s :: rx where "rx_s \<equiv> Cls [ISpace]"
abbreviation rx_opt :: "rx \<Rightarrow> rx" where "rx_opt r \<equiv> Rep True 0 (Some 1) r"
abbreviation rx_star :: "rx \<Rightarrow> rx" where "rx_star r \<equiv> Rep True 0 None r"
abbreviation rx_plus :: "rx \<Rightarrow> rx" where "rx_plus r \<equiv> Rep True 1 None r"
abbreviation rx_times :: "nat \<Rightarrow> rx \<Rightarrow> rx" where "rx_times n r \<equiv> Rep True n (Some n) r"
abbreviation rx_range :: "nat \<Rightarrow> nat \<Rightarrow> rx \<Rightarrow> rx" where "rx_range m n r \<equiv> Rep True m (Some n) r"

text \<open>A match: the text before it, the matched text, its groups, and the position after it.\<close>

record rx_found =
  m_before :: string
  m_text :: string
  m_groups :: rx_groups
  m_prev :: "char option"
  m_after :: string

definition mk_found :: "string \<Rightarrow> string \<Rightarrow> rx_pos \<Rightarrow> rx_found" where
  "mk_found pre s st' = (case st' of (p', s', g') \<Rightarrow>
     \<lparr>m_before = pre, m_text = take (length s - length s') s, m_groups = g',
      m_prev = p', m_after = s'\<rparr>)"

definition re_match :: "bool \<Rightarrow> rx \<Rightarrow> string \<Rightarrow> rx_found option" where
  \<comment> \<open>\<open>re.match\<close>: a match at the start of the text\<close>
  "re_match ic r s = (case rx_run ic r (None, s, []) of
     [] \<Rightarrow> None | st' # _ \<Rightarrow> Some (mk_found [] s st'))"

fun rx_scan :: "bool \<Rightarrow> rx \<Rightarrow> bool \<Rightarrow> string \<Rightarrow> char option \<Rightarrow> string \<Rightarrow> rx_found option" where
  \<comment> \<open>the search loop of \<open>re\<close>: try each start from left to right; \<open>must_advance\<close> refuses an
      empty match at the first start, as after an empty match of \<open>sub\<close> or \<open>finditer\<close>\<close>
  "rx_scan ic r must_advance skipped p s =
     (case filter (\<lambda>st'. \<not> must_advance \<or> advances (p, s, []) st') (rx_run ic r (p, s, [])) of
        st' # _ \<Rightarrow> Some (mk_found skipped s st')
      | [] \<Rightarrow> (case s of [] \<Rightarrow> None
                | x # xs \<Rightarrow> rx_scan ic r False (skipped @ [x]) (Some x) xs))"

definition re_search :: "bool \<Rightarrow> rx \<Rightarrow> string \<Rightarrow> rx_found option" where
  \<comment> \<open>\<open>re.search\<close>: the leftmost match\<close>
  "re_search ic r s = rx_scan ic r False [] None s"


lemma rx_char_le:
  "st' \<in> set (rx_char P st) \<Longrightarrow> length (rx_rest st') \<le> length (rx_rest st)"
  by (cases st) (auto simp: rx_char_def rx_rest_def split: list.splits if_splits)

lemma rx_rep_le:
  "(\<And>a b. b \<in> set (f a) \<Longrightarrow> length (rx_rest b) \<le> length (rx_rest a)) \<Longrightarrow>
   st' \<in> set (rx_rep greedy f m k st) \<Longrightarrow> length (rx_rest st') \<le> length (rx_rest st)"
proof (induction greedy f m k st arbitrary: st' rule: rx_rep.induct)
  case (1 greedy f m k st)
  from "1.prems"(2) obtain mid
    where mid: "mid \<in> set (f st)" "st' \<in> set (rx_rep greedy f m k mid)"
    by auto
  from "1.IH" [OF mid(1) "1.prems"(1) mid(2)]
  have "length (rx_rest st') \<le> length (rx_rest mid)" .
  moreover from "1.prems"(1) [OF mid(1)] have "length (rx_rest mid) \<le> length (rx_rest st)" .
  ultimately show ?case by simp
next
  case (2 greedy f k st)
  from "2.prems"(2)
  have "st' = st \<or> (\<exists>mid \<in> set (filter (advances st) (f st)). st' \<in> set (rx_rep greedy f 0 k mid))"
    by (auto simp: Let_def split: if_splits)
  then show ?case
  proof
    assume "st' = st"
    then show ?thesis by simp
  next
    assume "\<exists>mid \<in> set (filter (advances st) (f st)). st' \<in> set (rx_rep greedy f 0 k mid)"
    then obtain mid where mid: "mid \<in> set (filter (advances st) (f st))"
      "st' \<in> set (rx_rep greedy f 0 k mid)"
      by blast
    from "2.IH" [OF mid(1) "2.prems"(1) mid(2)]
    have "length (rx_rest st') \<le> length (rx_rest mid)" .
    moreover from mid(1) have "length (rx_rest mid) \<le> length (rx_rest st)"
      by (simp add: advances_def)
    ultimately show ?thesis by simp
  qed
next
  case (3 greedy f st)
  then show ?case by simp
qed

lemma rx_run_le:
  "st' \<in> set (rx_run ic r st) \<Longrightarrow> length (rx_rest st') \<le> length (rx_rest st)"
proof (induction r arbitrary: st st')
  case (Cat a b)
  from Cat.prems obtain mid where "mid \<in> set (rx_run ic a st)" "st' \<in> set (rx_run ic b mid)"
    by auto
  with Cat.IH show ?case by (meson order_trans)
next
  case (Rep greedy m n r)
  from Rep.prems show ?case
    by (simp only: rx_run.simps) (rule rx_rep_le [OF Rep.IH], assumption+)
next
  case (Grp name r)
  from Grp.prems obtain mid where "mid \<in> set (rx_run ic r st)"
    and "rx_rest st' = rx_rest mid"
    by (auto simp: rx_rest_def split: prod.splits)
  with Grp.IH show ?case by simp
qed (auto simp: rx_char_le split: if_splits)


lemma found_here_after:
  assumes "st' \<in> set (rx_run ic r (p, s, []))"
    and "\<not> adv \<or> advances (p, s, []) st'"
    and "m = mk_found skipped s st'"
  shows "length (m_after m) \<le> length s \<and>
   (length (m_after m) = length s \<longrightarrow> \<not> adv \<and> m_text m = []) \<and>
   (m_text m \<noteq> [] \<longrightarrow> length (m_after m) < length s)"
proof -
  obtain p' s' g' where st': "st' = (p', s', g')"
    by (cases st') auto
  from rx_run_le [OF assms(1)] have "length s' \<le> length s"
    by (simp add: rx_rest_def st')
  with assms(2) show ?thesis
    unfolding assms(3) st' mk_found_def
    by (auto simp: rx_rest_def advances_def)
qed

lemma rx_scan_after:
  "rx_scan ic r adv skipped p s = Some m \<Longrightarrow>
   length (m_after m) \<le> length s \<and>
   (length (m_after m) = length s \<longrightarrow> \<not> adv \<and> m_text m = []) \<and>
   (m_text m \<noteq> [] \<longrightarrow> length (m_after m) < length s)"
proof (induction s arbitrary: adv skipped p)
  case Nil
  show ?case
  proof (cases "filter (\<lambda>st'. \<not> adv \<or> advances (p, [], []) st') (rx_run ic r (p, [], []))")
    case Nil
    with Nil.prems show ?thesis by simp
  next
    case (Cons st' rest)
    then have "st' \<in> set (filter (\<lambda>st'. \<not> adv \<or> advances (p, [], []) st')
                              (rx_run ic r (p, [], [])))"
      by simp
    then have "st' \<in> set (rx_run ic r (p, [], []))" "\<not> adv \<or> advances (p, [], []) st'"
      by auto
    moreover from Cons Nil.prems have "m = mk_found skipped [] st'"
      by simp
    ultimately show ?thesis by (rule found_here_after)
  qed
next
  case (Cons x xs)
  show ?case
  proof (cases "filter (\<lambda>st'. \<not> adv \<or> advances (p, x # xs, []) st') (rx_run ic r (p, x # xs, []))")
    case Nil
    with Cons.prems have "rx_scan ic r False (skipped @ [x]) (Some x) xs = Some m"
      by simp
    from Cons.IH [OF this] show ?thesis by auto
  next
    case (Cons st' rest)
    then have "st' \<in> set (filter (\<lambda>st'. \<not> adv \<or> advances (p, x # xs, []) st')
                              (rx_run ic r (p, x # xs, [])))"
      by simp
    then have "st' \<in> set (rx_run ic r (p, x # xs, []))"
      "\<not> adv \<or> advances (p, x # xs, []) st'"
      by auto
    moreover from Cons Cons.prems have "m = mk_found skipped (x # xs) st'"
      by simp
    ultimately show ?thesis by (rule found_here_after)
  qed
qed

function re_finditer_from :: "bool \<Rightarrow> rx \<Rightarrow> bool \<Rightarrow> char option \<Rightarrow> string \<Rightarrow> rx_found list" where
  \<comment> \<open>the scanner behind \<open>finditer\<close> and \<open>sub\<close>: the next search starts where the last match
      ended, and must advance when that match was empty\<close>
  "re_finditer_from ic r must_advance p s =
     (case rx_scan ic r must_advance [] p s of
        None \<Rightarrow> []
      | Some m \<Rightarrow> m # re_finditer_from ic r (m_text m = []) (m_prev m) (m_after m))"
  by pat_completeness auto
termination
proof (relation "measure (\<lambda>(ic, r, adv, p, s). 2 * length s + (if adv then 0 else 1))",
       goal_cases)
  case 1
  show ?case by simp
next
  case (2 ic r must_advance p s m)
  from rx_scan_after [OF 2] show ?case
    by (cases "length (m_after m) = length s") (auto split: if_splits)
qed

declare re_finditer_from.simps [simp del]

definition re_finditer :: "bool \<Rightarrow> rx \<Rightarrow> string \<Rightarrow> rx_found list" where
  "re_finditer ic r s = re_finditer_from ic r False None s"

definition re_sub :: "bool \<Rightarrow> rx \<Rightarrow> string \<Rightarrow> string \<Rightarrow> string" where
  \<comment> \<open>\<open>re.sub(r, repl, s)\<close> for a replacement without group references: the text between
      the matches is kept, each match becomes \<open>repl\<close>\<close>
  "re_sub ic r repl s =
     (let ms = re_finditer ic r s
      in concat (map (\<lambda>m. m_before m @ repl) ms) @ (if ms = [] then s else m_after (last ms)))"

section \<open>Preprocessor\<close>

text \<open>
  A text block of \<open>text_extractor.py\<close>: its text, its bounding box \<open>(x0, y0, x1, y1)\<close>, and
  the font and size when the parser gives them. Coordinates, sizes and scores are Python
  floats; the model computes with real numbers.
\<close>

record text_block =
  tb_text :: string
  tb_bbox :: "real \<times> real \<times> real \<times> real"
  tb_font :: "string option"
  tb_size :: "real option"

definition bbox0 :: "text_block \<Rightarrow> real" where
  "bbox0 b = (case tb_bbox b of (x0, y0, x1, y1) \<Rightarrow> x0)"

definition bbox1 :: "text_block \<Rightarrow> real" where
  "bbox1 b = (case tb_bbox b of (x0, y0, x1, y1) \<Rightarrow> y0)"

definition bbox2 :: "text_block \<Rightarrow> real" where
  "bbox2 b = (case tb_bbox b of (x0, y0, x1, y1) \<Rightarrow> x1)"

definition normalization_patterns :: "(rx \<times> string) list" where
  "normalization_patterns =
     [(rx_plus rx_s, '' ''),
      (NCls [IWord, ISpace, ILit CHR ''.'', ILit CHR ''-'', ILit CHR ''/'',
             ILit CHR ''('', ILit CHR '')''], [])]"

definition normalize_text :: "string \<Rightarrow> string" where
  "normalize_text t =
     py_lower (fold (\<lambda>(pat, repl) normalized. re_sub False pat repl normalized)
                    normalization_patterns (py_strip t))"

definition tokenize :: "string \<Rightarrow> string list" where
  "tokenize t = filter (\<lambda>token. token \<noteq> []) (py_split (normalize_text t))"

fun group_loop ::
  "real \<Rightarrow> text_block list \<Rightarrow> text_block list list \<Rightarrow> text_block list \<Rightarrow> text_block list list"
where
  \<comment> \<open>the \<open>for\<close> loop of \<open>group_blocks\<close> over the blocks that remain, with \<open>groups\<close> and
      \<open>current_group\<close>; at its end the current group is appended\<close>
  "group_loop max_distance [] groups current_group = groups @ [current_group]"
| "group_loop max_distance (block # rest) groups current_group =
     (let last_block = last current_group;
          vertical_dist = \<bar>bbox1 block - bbox1 last_block\<bar>
      in if vertical_dist < max_distance \<and> bbox0 block - bbox2 last_block < max_distance * 2
         then group_loop max_distance rest groups (current_group @ [block])
         else group_loop max_distance rest (groups @ [current_group]) [block])"

definition group_blocks :: "text_block list \<Rightarrow> real \<Rightarrow> text_block list list" where
  \<comment> \<open>\<open>sorted\<close> is stable, as \<open>sort_key\<close> is\<close>
  "group_blocks blocks max_distance =
     (if blocks = [] then []
      else let sorted_blocks = sort_key (\<lambda>b. (bbox1 b, bbox0 b)) blocks
           in group_loop max_distance (tl sorted_blocks) [] [hd sorted_blocks])"

text \<open>
  The features of one block. The source also stores an MD5 digest under \<open>hash\<close>; no
  function of the pipeline reads it, and it is left out.
\<close>

record processed_block =
  pb_original :: text_block
  pb_normalized :: string
  pb_tokens :: "string list"
  pb_bbox :: "real \<times> real \<times> real \<times> real"
  pb_font :: "string option"
  pb_size :: "real option"

record processed_data =
  processed_blocks :: "processed_block list"
  groups :: "text_block list list"
  group_texts :: "string list"
  full_text :: string
  normalized_full_text :: string

definition extract_features :: "text_block list \<Rightarrow> processed_data" where
  "extract_features blocks =
     (let grps = group_blocks blocks 20
      in \<lparr>processed_blocks =
            map (\<lambda>block. \<lparr>pb_original = block, pb_normalized = normalize_text (tb_text block),
                           pb_tokens = tokenize (tb_text block), pb_bbox = tb_bbox block,
                           pb_font = tb_font block, pb_size = tb_size block\<rparr>) blocks,
          groups = grps,
          group_texts = map (\<lambda>group. py_join '' '' (map tb_text group)) grps,
          full_text = py_join '' '' (map tb_text blocks),
          normalized_full_text = normalize_text (py_join '' '' (map tb_text blocks))\<rparr>)"

section \<open>Dictionaries\<close>

text \<open>
  A Python \<open>dict\<close> keeps its keys in the order of their first insertion; it is modelled
  by an association list. Assigning to a key that is present replaces the value in place.
\<close>

definition dict_keys :: "('k \<times> 'v) list \<Rightarrow> 'k list" where
  "dict_keys d = map fst d"

definition dict_get :: "('k \<times> 'v) list \<Rightarrow> 'k \<Rightarrow> 'v option" where
  "dict_get d k = map_of d k"

definition dict_set :: "'k \<Rightarrow> 'v \<Rightarrow> ('k \<times> 'v) list \<Rightarrow> ('k \<times> 'v) list" where
  "dict_set k v d =
     (if k \<in> set (dict_keys d) then map (\<lambda>kv. if fst kv = k then (k, v) else kv) d
      else d @ [(k, v)])"

definition dict_update :: "('k \<times> 'v) list \<Rightarrow> ('k \<times> 'v) list \<Rightarrow> ('k \<times> 'v) list" where
  \<comment> \<open>\<open>d.update(other)\<close>\<close>
  "dict_update d other = fold (\<lambda>kv acc. dict_set (fst kv) (snd kv) acc) other d"

section \<open>Configuration\<close>

definition T_HIGH :: real where
  "T_HIGH = 0.85"

definition T_LOW :: real where
  "T_LOW = 0.60"

definition TOP_K_CANDIDATES :: nat where
  "TOP_K_CANDIDATES = 5"

section \<open>Candidates\<close>

text \<open>
  A candidate is a Python dict. The keys that both generators always set are fields of
  the record; the keys that only one of them sets (\<open>pattern\<close> and \<open>match_type\<close>,
  \<open>similarity\<close>) and the key that the scorer adds (\<open>final_score\<close>) are optional.
\<close>

record candidate =
  c_text :: string
  c_normalized :: string
  c_bbox :: "real \<times> real \<times> real \<times> real"
  c_score :: real
  c_method :: string
  c_pattern :: "rx option"
  c_match_type :: "string option"
  c_similarity :: "real option"
  c_final_score :: "real option"

definition uf_set :: "string list" where
  "uf_set = [''AC'', ''AL'', ''AP'', ''AM'', ''BA'', ''CE'', ''DF'', ''ES'', ''GO'', ''MA'', ''MT'',
             ''MS'', ''MG'', ''PA'', ''PB'', ''PR'', ''PE'', ''PI'', ''RJ'', ''RN'', ''RS'', ''RO'',
             ''RR'', ''SC'', ''SP'', ''SE'', ''TO'']"

text \<open>The field-name tests that the scorer and the decision engine share.\<close>

definition is_date_name :: "string \<Rightarrow> bool" where
  "is_date_name field_lower = (py_in ''data'' field_lower \<or> py_in ''date'' field_lower)"

definition is_state_name :: "string \<Rightarrow> bool" where
  "is_state_name field_lower =
     (py_in ''estado'' field_lower \<or> py_in ''uf'' field_lower \<or> py_in ''state'' field_lower)"

definition endereco_cedilla :: string where
  \<comment> \<open>\<open>endereco\<close> written with c cedilla (U+00E7)\<close>
  "endereco_cedilla = ''endere'' @ [CHR 0xE7] @ ''o''"

definition praca_cedilla :: string where
  "praca_cedilla = ''pra'' @ [CHR 0xE7] @ ''a''"

definition is_address_name :: "string \<Rightarrow> bool" where
  "is_address_name field_lower =
     (py_in ''endereco'' field_lower \<or> py_in endereco_cedilla field_lower \<or>
      py_in ''address'' field_lower)"

text \<open>Patterns that more than one component uses.\<close>

definition rx_sep :: rx where
  \<comment> \<open>\<open>[/-]\<close>\<close>
  "rx_sep = Cls [ILit CHR ''/'', ILit CHR ''-'']"

definition rx_date_anchored :: rx where
  \<comment> \<open>\<open>^\d{1,2}[/-]\d{1,2}[/-]\d{2,4}$\<close>\<close>
  "rx_date_anchored =
     rx_seq [Bol, rx_range 1 2 rx_d, rx_sep, rx_range 1 2 rx_d, rx_sep, rx_range 2 4 rx_d, Eol]"

definition rx_cep_token :: rx where
  \<comment> \<open>\<open>\b\d{5}-?\d{3}\b\<close>\<close>
  "rx_cep_token = rx_seq [Wb, rx_times 5 rx_d, rx_opt (Lit CHR ''-''), rx_times 3 rx_d, Wb]"

definition rx_number_token :: rx where
  \<comment> \<open>\<open>\b\d+[\w\-\/]*\b\<close>\<close>
  "rx_number_token =
     rx_seq [Wb, rx_plus rx_d, rx_star (Cls [IWord, ILit CHR ''-'', ILit CHR ''/'']), Wb]"

definition rx_letters :: rx where
  \<comment> \<open>\<open>[A-Za-z\<dots>]\<close> with the accented letters from U+00C0 to U+00FF\<close>
  "rx_letters = Cls [IRange CHR ''A'' CHR ''Z'', IRange CHR ''a'' CHR ''z'',
                     IRange (CHR 0xC0) (CHR 0xFF)]"

section \<open>Scorer and validator\<close>

definition rx_cpf :: rx where
  \<comment> \<open>\<open>\d{3}\.?\d{3}\.?\d{3}-?\d{2}\<close>\<close>
  "rx_cpf =
     rx_seq [rx_times 3 rx_d, rx_opt (Lit CHR ''.''), rx_times 3 rx_d, rx_opt (Lit CHR ''.''),
             rx_times 3 rx_d, rx_opt (Lit CHR ''-''), rx_times 2 rx_d]"

definition rx_cnpj :: rx where
  \<comment> \<open>\<open>\d{2}\.?\d{3}\.?\d{3}/?\d{4}-?\d{2}\<close>\<close>
  "rx_cnpj =
     rx_seq [rx_times 2 rx_d, rx_opt (Lit CHR ''.''), rx_times 3 rx_d, rx_opt (Lit CHR ''.''),
             rx_times 3 rx_d, rx_opt (Lit CHR ''/''), rx_times 4 rx_d, rx_opt (Lit CHR ''-''),
             rx_times 2 rx_d]"

definition rx_email :: rx where
  \<comment> \<open>\<open>[A-Za-z0-9._%+-]+@[A-Za-z0-9.-]+\.[A-Z|a-z]{2,}\<close>\<close>
  "rx_email =
     rx_seq [rx_plus (Cls [IRange CHR ''A'' CHR ''Z'', IRange CHR ''a'' CHR ''z'',
                           IRange CHR ''0'' CHR ''9'', ILit CHR ''.'', ILit CHR ''_'',
                           ILit CHR ''%'', ILit CHR ''+'', ILit CHR ''-'']),
             Lit CHR ''@'',
             rx_plus (Cls [IRange CHR ''A'' CHR ''Z'', IRange CHR ''a'' CHR ''z'',
                           IRange CHR ''0'' CHR ''9'', ILit CHR ''.'', ILit CHR ''-'']),
             Lit CHR ''.'',
             Rep True 2 None (Cls [IRange CHR ''A'' CHR ''Z'', ILit CHR ''|'',
                                   IRange CHR ''a'' CHR ''z''])]"

definition rx_phone :: rx where
  \<comment> \<open>\<open>\(?\d{2}\)?\s?\d{4,5}-?\d{4}\<close>\<close>
  "rx_phone =
     rx_seq [rx_opt (Lit CHR ''(''), rx_times 2 rx_d, rx_opt (Lit CHR '')''), rx_opt rx_s,
             rx_range 4 5 rx_d, rx_opt (Lit CHR ''-''), rx_times 4 rx_d]"

definition rx_cep :: rx where
  \<comment> \<open>\<open>\d{5}-?\d{3}\<close>\<close>
  "rx_cep = rx_seq [rx_times 5 rx_d, rx_opt (Lit CHR ''-''), rx_times 3 rx_d]"

definition rx_anchored :: "rx \<Rightarrow> rx" where
  \<comment> \<open>\<open>^...$\<close>\<close>
  "rx_anchored r = rx_seq [Bol, r, Eol]"

definition validation_patterns :: "(string \<times> rx) list" where
  "validation_patterns =
     [(''cpf'', rx_anchored rx_cpf),
      (''cnpj'', rx_anchored rx_cnpj),
      (''email'', rx_anchored rx_email),
      (''phone'', rx_anchored rx_phone),
      (''date'', rx_date_anchored),
      (''cep'', rx_anchored rx_cep)]"

definition regex_validation :: "candidate \<Rightarrow> string \<Rightarrow> string \<Rightarrow> real" where
  "regex_validation cand field_name field_description =
     (let text = c_normalized cand;
          field_lower = py_lower field_name;
          desc_lower = py_lower field_description
      in if list_ex (\<lambda>(pattern_type, pattern).
                       (py_in pattern_type field_lower \<or> py_in pattern_type desc_lower) \<and>
                       re_match True pattern text \<noteq> None) validation_patterns
         then 1
         else if c_method cand = ''regex'' then 0.8
         else 0.5)"

definition positional_score :: "candidate \<Rightarrow> candidate list \<Rightarrow> real" where
  "positional_score cand all_candidates =
     (if length all_candidates > 0 \<and> cand = hd all_candidates then 0.7 else 0.5)"

definition rx_street_loose :: rx where
  \<comment> \<open>\<open>\b(rua|avenida|av\.?|travessa|alameda|rodovia|rod\.?|estrada|praca|praca|largo)\b\<close>,
      the ninth alternative written with c cedilla\<close>
  "rx_street_loose =
     rx_seq [Wb,
       Grp ''1'' (rx_alts [rx_str ''rua'', rx_str ''avenida'',
                          Cat (rx_str ''av'') (rx_opt (Lit CHR ''.'')), rx_str ''travessa'',
                          rx_str ''alameda'', rx_str ''rodovia'',
                          Cat (rx_str ''rod'') (rx_opt (Lit CHR ''.'')), rx_str ''estrada'',
                          rx_str praca_cedilla, rx_str ''praca'', rx_str ''largo'']),
       Wb]"

definition rx_city_anchored :: rx where
  \<comment> \<open>\<open>^[A-Za-z\<dots>]+(?:\s+[A-Za-z\<dots>]+)*$\<close>\<close>
  "rx_city_anchored =
     rx_seq [Bol, rx_plus rx_letters, rx_star (Cat (rx_plus rx_s) (rx_plus rx_letters)), Eol]"

definition rx_date_prefix :: rx where
  \<comment> \<open>\<open>\d{1,2}[/-]\d{1,2}[/-]\d{2,4}\<close>\<close>
  "rx_date_prefix =
     rx_seq [rx_range 1 2 rx_d, rx_sep, rx_range 1 2 rx_d, rx_sep, rx_range 2 4 rx_d]"

definition after_last_at :: "string \<Rightarrow> string" where
  \<comment> \<open>\<open>text.split('@')[-1]\<close>: the text after the last \<open>@\<close>\<close>
  "after_last_at text = rev (takeWhile (\<lambda>c. c \<noteq> CHR ''@'') (rev text))"

definition validate_value :: "string \<Rightarrow> string \<Rightarrow> string \<Rightarrow> real" where
  "validate_value text field_name field_description =
     (let text_lower = py_strip (py_lower text);
          field_lower = py_lower field_name
      in
      if text_lower = [] then 0
      else if py_in ''cpf'' field_lower
      then (let cleaned = re_sub False (NCls [IDigit]) [] text
            in if length cleaned = 11 then 1 else 0.3)
      else if py_in ''cnpj'' field_lower
      then (let cleaned = re_sub False (NCls [IDigit]) [] text
            in if length cleaned = 14 then 1 else 0.3)
      else if py_in ''cep'' field_lower
      then (if re_search False rx_cep_token text \<noteq> None then 1 else 0.3)
      else if is_state_name field_lower
      then (if py_upper (py_strip text) \<in> set uf_set then 1 else 0.3)
      else if py_in ''cidade'' field_lower \<or> py_in ''city'' field_lower
      then (if re_match False rx_city_anchored (py_strip text) \<noteq> None \<and>
               length (py_strip text) \<ge> 3 then 0.9 else 0.3)
      else if is_address_name field_lower
      then (if re_search False rx_street_loose text_lower \<noteq> None \<and>
               re_search False rx_number_token text_lower \<noteq> None then 0.9 else 0.3)
      else if py_in ''email'' field_lower \<or> py_in ''e-mail'' field_lower
      then (if CHR ''@'' \<in> set text \<and> CHR ''.'' \<in> set (after_last_at text) then 1 else 0.3)
      else if is_date_name field_lower
      then (if re_match False rx_date_prefix text \<noteq> None then 1 else 0.3)
      else 0.6)"

definition semantic_score :: "candidate \<Rightarrow> real" where
  \<comment> \<open>the third sub-score of \<open>score_candidate\<close>\<close>
  "semantic_score cand =
     (let semantic_score = (case c_similarity cand of None \<Rightarrow> 0 | Some v \<Rightarrow> v)
      in if semantic_score > 0 then max 0 (min 1 ((semantic_score + 1) / 2))
         else semantic_score)"

definition score_candidate ::
  "candidate \<Rightarrow> string \<Rightarrow> string \<Rightarrow> candidate list \<Rightarrow> real" where
  "score_candidate cand field_name field_description all_candidates =
     (let scores =
            [(c_score cand, 0.2),
             (regex_validation cand field_name field_description, 0.25),
             (semantic_score cand, 0.25),
             (positional_score cand all_candidates, 0.15),
             (validate_value (c_text cand) field_name field_description, 0.15)];
          total_score = sum_list (map (\<lambda>(score, weight). weight * score) scores)
      in min 1 (max 0 total_score))"

definition final_score :: "candidate \<Rightarrow> real" where
  \<comment> \<open>\<open>x.get('final_score', 0.0)\<close>\<close>
  "final_score c = (case c_final_score c of None \<Rightarrow> 0 | Some v \<Rightarrow> v)"

fun first_max :: "candidate \<Rightarrow> candidate list \<Rightarrow> candidate" where
  \<comment> \<open>\<open>max(..., key=final_score)\<close>: the first item with the greatest key\<close>
  "first_max best [] = best"
| "first_max best (c # cs) =
     (if final_score c > final_score best
      then first_max c cs else first_max best cs)"

definition select_best_candidate ::
  "candidate list \<Rightarrow> string \<Rightarrow> string \<Rightarrow> candidate option" where
  "select_best_candidate candidates field_name field_description =
     (if candidates = [] then None
      else let scored_candidates =
                 map (\<lambda>cand. cand\<lparr>c_final_score :=
                        Some (score_candidate cand field_name field_description candidates)\<rparr>)
                     candidates
           in Some (first_max (hd scored_candidates) (tl scored_candidates)))"

section \<open>Decision engine\<close>

definition rx_street_strict :: rx where
  \<comment> \<open>\<open>\b(rua|avenida|av\.|travessa|alameda|rodovia|rod\.|estrada|praca|praca|largo)\b\<close>,
      the ninth alternative written with c cedilla\<close>
  "rx_street_strict =
     rx_seq [Wb,
       Grp ''1'' (rx_alts [rx_str ''rua'', rx_str ''avenida'', rx_str ''av.'', rx_str ''travessa'',
                          rx_str ''alameda'', rx_str ''rodovia'', rx_str ''rod.'', rx_str ''estrada'',
                          rx_str praca_cedilla, rx_str ''praca'', rx_str ''largo'']),
       Wb]"

definition deterministic_accept :: "string \<Rightarrow> string \<Rightarrow> bool" where
  "deterministic_accept field_name val =
     (let field_lower = py_lower field_name in
      if py_in ''cpf'' field_lower then length (filter py_isdigit val) = 11
      else if is_date_name field_lower \<and> re_match False rx_date_anchored (py_strip val) \<noteq> None
      then True
      else if py_in ''cep'' field_lower then re_search False rx_cep_token (py_strip val) \<noteq> None
      else if is_state_name field_lower \<and> py_upper (py_strip val) \<in> set uf_set then True
      else if is_address_name field_lower \<and>
              re_search False rx_street_strict (py_lower val) \<noteq> None \<and>
              re_search False rx_number_token (py_lower val) \<noteq> None
      then True
      else False)"

definition rx_date_label :: rx where
  \<comment> \<open>\<open>^(?:nascimento|data(?:\s+de\s+nascimento)?|date)\s*:\s*\<close>\<close>
  "rx_date_label =
     rx_seq [Bol,
       rx_alts [rx_str ''nascimento'',
                Cat (rx_str ''data'')
                    (rx_opt (rx_seq [rx_plus rx_s, rx_str ''de'', rx_plus rx_s, rx_str ''nascimento''])),
                rx_str ''date''],
       rx_star rx_s, Lit CHR '':'', rx_star rx_s]"

definition rx_word_label :: rx where
  \<comment> \<open>\<open>^[A-Za-z\<dots>]+\s*:\s*\<close>\<close>
  "rx_word_label = rx_seq [Bol, rx_plus rx_letters, rx_star rx_s, Lit CHR '':'', rx_star rx_s]"

definition rx_date_groups :: rx where
  \<comment> \<open>\<open>^(\d{1,2})/(\d{1,2})/(\d{2,4})$\<close>\<close>
  "rx_date_groups =
     rx_seq [Bol, Grp ''1'' (rx_range 1 2 rx_d), Lit CHR ''/'', Grp ''2'' (rx_range 1 2 rx_d),
             Lit CHR ''/'', Grp ''3'' (rx_range 2 4 rx_d), Eol]"

definition rx_cep_group :: rx where
  \<comment> \<open>\<open>\b(\d{5}-?\d{3})\b\<close>\<close>
  "rx_cep_group =
     rx_seq [Wb, Grp ''1'' (rx_seq [rx_times 5 rx_d, rx_opt (Lit CHR ''-''), rx_times 3 rx_d]), Wb]"

definition m_group :: "rx_found \<Rightarrow> string \<Rightarrow> string" where
  \<comment> \<open>\<open>m.group(name)\<close> of a group that took part in the match\<close>
  "m_group m name = (case map_of (m_groups m) name of None \<Rightarrow> [] | Some v \<Rightarrow> v)"

definition py_int :: "string \<Rightarrow> nat" where
  \<comment> \<open>\<open>int(y)\<close> for a string of decimal digits\<close>
  "py_int y = foldl (\<lambda>n c. 10 * n + (cp c - 48)) 0 y"

text \<open>
  \<open>_normalize_value\<close> is a sequence of blocks \<open>if ...: ... return\<close>. Each block is a
  function into \<open>option\<close>: \<open>Some\<close> is the value the block returns, \<open>None\<close> means that
  control falls through to the next block.
\<close>

definition format_cpf :: "string \<Rightarrow> string \<Rightarrow> string option" where
  "format_cpf field_lower normalized =
     (if py_in ''cpf'' field_lower
      then (let digits = filter py_isdigit normalized
            in if length digits = 11
               then Some (take 3 digits @ ''.'' @ take 3 (drop 3 digits) @ ''.'' @
                          take 3 (drop 6 digits) @ ''-'' @ drop 9 digits)
               else None)
      else None)"

definition format_cnpj :: "string \<Rightarrow> string \<Rightarrow> string option" where
  "format_cnpj field_lower normalized =
     (if py_in ''cnpj'' field_lower
      then (let digits = filter py_isdigit normalized
            in if length digits = 14
               then Some (take 2 digits @ ''.'' @ take 3 (drop 2 digits) @ ''.'' @
                          take 3 (drop 5 digits) @ ''/'' @ take 4 (drop 8 digits) @ ''-'' @
                          drop 12 digits)
               else None)
      else None)"

definition format_date :: "string \<Rightarrow> string \<Rightarrow> string option" where
  "format_date field_lower normalized =
     (if py_in ''data'' field_lower \<or> py_in ''date'' field_lower \<or>
         py_in ''data_nascimento'' field_lower \<or> py_in ''nascimento'' field_lower
      then (let text0 = py_strip (py_replace_chr CHR ''-'' CHR ''/'' normalized);
                text1 = re_sub True rx_date_label [] text0;
                text2 = re_sub False rx_word_label [] text1
            in case re_match False rx_date_groups text2 of
                 Some m \<Rightarrow>
                   (let d = m_group m ''1''; mth = m_group m ''2''; y = m_group m ''3'';
                        day = py_zfill 2 d;
                        month = py_zfill 2 mth;
                        year = (if length y = 4 then y
                                else if py_int y \<le> 50 then ''20'' @ y else ''19'' @ y)
                    in Some (day @ ''/'' @ month @ ''/'' @ year))
               | None \<Rightarrow> None)
      else None)"

definition format_cep :: "string \<Rightarrow> string \<Rightarrow> string option" where
  "format_cep field_lower normalized =
     (if py_in ''cep'' field_lower
      then (case re_search False rx_cep_group normalized of
              Some m \<Rightarrow>
                (let digits = filter py_isdigit (m_group m ''1'')
                 in Some (take 5 digits @ ''-'' @ drop 5 digits))
            | None \<Rightarrow>
                (let digits = filter py_isdigit normalized
                 in if length digits = 8 then Some (take 5 digits @ ''-'' @ drop 5 digits)
                    else None))
      else None)"

definition normalize_value :: "string \<Rightarrow> string \<Rightarrow> string" where
  "normalize_value val field_name =
     (let normalized = py_join '' '' (py_split val);
          field_lower = py_lower field_name
      in case format_cpf field_lower normalized of Some r \<Rightarrow> r | None \<Rightarrow>
        (case format_cnpj field_lower normalized of Some r \<Rightarrow> r | None \<Rightarrow>
        (case format_date field_lower normalized of Some r \<Rightarrow> r | None \<Rightarrow>
        (case format_cep field_lower normalized of Some r \<Rightarrow> r | None \<Rightarrow>
        (if is_state_name field_lower then take 2 (py_upper normalized)
         else if is_address_name field_lower then normalized
         else normalized)))))"

definition normalize_with_mini_model :: "string \<Rightarrow> string \<Rightarrow> string \<Rightarrow> string" where
  \<comment> \<open>the branch on the description only passes\<close>
  "normalize_with_mini_model val field_name field_description =
     (let normalized = normalize_value val field_name;
          desc_lower = py_lower field_description
      in if py_in ''formato'' desc_lower \<or> py_in ''format'' desc_lower then normalized
         else normalized)"

section \<open>Fallback service\<close>

text \<open>
  The reply of the reasoning service is parsed by \<open>json.loads\<close>; its values are JSON
  values, not only strings.
\<close>

datatype json =
    JNull
  | JBool bool
  | JInt int
  | JFloat real
  | JStr string
  | JArr "json list"
  | JObj "(string \<times> json) list"

text \<open>
  What \<open>extract_fields\<close> sends: the label, the pending fields with their descriptions,
  the excerpt of the document and the values accepted so far. The prompt is a rendering
  of these four.
\<close>

record llm_request =
  rq_label :: string
  rq_fields :: "(string \<times> string) list"
  rq_document_text :: string
  rq_extracted_context :: "(string \<times> json) list"

text \<open>
  The service is a collaborator outside the code. The request asks for
  \<open>response_format json_object\<close>, so a reply that parses is a JSON object. \<open>None\<close> is
  every exception inside the \<open>try\<close> block: the call fails, the reply has no content, or
  the content is not JSON.
\<close>

type_synonym llm_service = "llm_request \<Rightarrow> (string \<times> json) list option"

datatype error = KeyError string | IndexError | ParsingFailure | EmbeddingFailure

text \<open>
  The state of a decision engine: the flag of the source, and the log of the calls made
  to \<open>extract_fields\<close> (kept here to count them).
\<close>

record engine_state =
  used_llm_last_call :: bool
  llm_calls :: "llm_request list"

definition ensure_fields :: "string list \<Rightarrow> (string \<times> json) list \<Rightarrow> (string \<times> json) list" where
  \<comment> \<open>the loop that adds every field the reply does not have, with the empty string\<close>
  "ensure_fields field_names results =
     fold (\<lambda>field_name results.
             if field_name \<notin> set (dict_keys results)
             then dict_set field_name (JStr []) results else results)
          field_names results"

definition extract_fields ::
  "llm_service \<Rightarrow> engine_state \<Rightarrow> string \<Rightarrow> (string \<times> string) list \<Rightarrow> string \<Rightarrow>
   (string \<times> json) list \<Rightarrow> (string \<times> json) list \<times> engine_state" where
  "extract_fields service st label flds document_text extracted_context =
     (let request = \<lparr>rq_label = label, rq_fields = flds, rq_document_text = document_text,
                      rq_extracted_context = extracted_context\<rparr>;
          st' = st\<lparr>llm_calls := llm_calls st @ [request]\<rparr>
      in case service request of
           Some results \<Rightarrow> (ensure_fields (dict_keys flds) results, st')
         | None \<Rightarrow> (map (\<lambda>field_name. (field_name, JStr [])) (dict_keys flds), st'))"

fun pending_schema_of ::
  "(string \<times> string) list \<Rightarrow> string list \<Rightarrow> (string \<times> string) list \<Rightarrow>
   error + (string \<times> string) list" where
  \<comment> \<open>\<open>{field: extraction_schema[field] for field in pending_fields}\<close>: a field that the
      schema does not have raises KeyError\<close>
  "pending_schema_of extraction_schema [] acc = Inr acc"
| "pending_schema_of extraction_schema (field # flds) acc =
     (case dict_get extraction_schema field of
        None \<Rightarrow> Inl (KeyError field)
      | Some description \<Rightarrow>
          pending_schema_of extraction_schema flds (dict_set field description acc))"

definition call_llm ::
  "llm_service \<Rightarrow> engine_state \<Rightarrow> string list \<Rightarrow> (string \<times> string) list \<Rightarrow> string \<Rightarrow>
   processed_data \<Rightarrow> (string \<times> json) list \<Rightarrow> (error + (string \<times> json) list) \<times> engine_state" where
  "call_llm service st pending_fields extraction_schema label document_context extracted_so_far =
     (case pending_schema_of extraction_schema pending_fields [] of
        Inl e \<Rightarrow> (Inl e, st)
      | Inr pending_schema \<Rightarrow>
          (let full = full_text document_context;
               text_snippet = (if length full > 3000 then take 3000 full else full);
               (results, st') = extract_fields service st label pending_schema text_snippet
                                  extracted_so_far
           in (Inr results, st')))"

fun classify_fields ::
  "(string \<times> string) list \<Rightarrow> (string \<times> candidate option) list \<Rightarrow> (string \<times> json) list \<Rightarrow>
   string list \<Rightarrow> (string \<times> json) list \<times> string list" where
  \<comment> \<open>the \<open>for\<close> loop of \<open>process_extraction\<close> over the items that remain, with
      \<open>final_values\<close> and \<open>pending_fields\<close>\<close>
  "classify_fields extraction_schema [] final_values pending_fields =
     (final_values, pending_fields)"
| "classify_fields extraction_schema ((field_name, None) # rest) final_values pending_fields =
     classify_fields extraction_schema rest final_values (pending_fields @ [field_name])"
| "classify_fields extraction_schema ((field_name, Some candidate_result) # rest)
       final_values pending_fields =
     (let score = final_score candidate_result in
      if score \<ge> T_HIGH
      then classify_fields extraction_schema rest
             (dict_set field_name
                (JStr (normalize_value (c_text candidate_result) field_name)) final_values)
             pending_fields
      else if score \<ge> T_LOW
      then classify_fields extraction_schema rest
             (dict_set field_name
                (JStr (normalize_with_mini_model (c_text candidate_result) field_name
                         (case dict_get extraction_schema field_name of
                            None \<Rightarrow> [] | Some d \<Rightarrow> d))) final_values)
             pending_fields
      else if deterministic_accept field_name (c_text candidate_result)
      then classify_fields extraction_schema rest
             (dict_set field_name
                (JStr (normalize_value (c_text candidate_result) field_name)) final_values)
             pending_fields
      else classify_fields extraction_schema rest final_values (pending_fields @ [field_name]))"

definition process_extraction ::
  "llm_service \<Rightarrow> engine_state \<Rightarrow> (string \<times> candidate option) list \<Rightarrow> string \<Rightarrow>
   (string \<times> string) list \<Rightarrow> processed_data \<Rightarrow> (error + (string \<times> json) list) \<times> engine_state" where
  "process_extraction service st field_results label extraction_schema document_context =
     (let st0 = st\<lparr>used_llm_last_call := False\<rparr>;
          (final_values, pending_fields) = classify_fields extraction_schema field_results [] []
      in if pending_fields \<noteq> []
         then (case call_llm service st0 pending_fields extraction_schema label
                      document_context final_values of
                 (Inl e, st1) \<Rightarrow> (Inl e, st1)
               | (Inr llm_results, st1) \<Rightarrow>
                   (Inr (dict_update final_values llm_results),
                    st1\<lparr>used_llm_last_call := True\<rparr>))
         else (Inr final_values, st0))"

section \<open>Candidate generator\<close>

text \<open>
  The embedding model is a collaborator outside the code: it maps a list of strings to
  one vector each, or fails (\<open>None\<close>: any exception of \<open>encode\<close>).
\<close>

type_synonym embedding_model = "string list \<Rightarrow> real list list option"

definition rx_uf_codes :: rx where
  "rx_uf_codes = rx_alts (map rx_str uf_set)"

definition rx_city_state :: rx where
  \<comment> \<open>\<open>(?P<city>[A-Za-z\<dots>]+(?:\s+[A-Za-z\<dots>]+)*)\s*[,\-]\s*(?P<state>...)\<close>\<close>
  "rx_city_state =
     rx_seq [Grp ''city'' (Cat (rx_plus rx_letters)
                               (rx_star (Cat (rx_plus rx_s) (rx_plus rx_letters)))),
             rx_star rx_s, Cls [ILit CHR '','', ILit CHR ''-''], rx_star rx_s,
             Grp ''state'' rx_uf_codes]"

definition rx_street_types :: rx where
  \<comment> \<open>\<open>(?:rua|avenida|av\.?|travessa|alameda|rodovia|rod\.?|estrada|praca|praca|largo)\<close>,
      the ninth alternative written with c cedilla\<close>
  "rx_street_types =
     rx_alts [rx_str ''rua'', rx_str ''avenida'', Cat (rx_str ''av'') (rx_opt (Lit CHR ''.'')),
              rx_str ''travessa'', rx_str ''alameda'', rx_str ''rodovia'',
              Cat (rx_str ''rod'') (rx_opt (Lit CHR ''.'')), rx_str ''estrada'',
              rx_str praca_cedilla, rx_str ''praca'', rx_str ''largo'']"

definition rx_address :: rx where
  \<comment> \<open>\<open>(?P<address>\b{street_types}\s+[\w\<dots>\.\- ]+?\s*,?\s*\d+[\w\-\/]*?)\<close>\<close>
  "rx_address =
     Grp ''address''
       (rx_seq [Wb, rx_street_types, rx_plus rx_s,
                Rep False 1 None (Cls [IWord, IRange (CHR 0xC0) (CHR 0xFF), ILit CHR ''.'',
                                       ILit CHR ''-'', ILit CHR '' '']),
                rx_star rx_s, rx_opt (Lit CHR '',''), rx_star rx_s, rx_plus rx_d,
                Rep False 0 None (Cls [IWord, ILit CHR ''-'', ILit CHR ''/''])])"

definition rx_address_cep :: rx where
  \<comment> \<open>the address pattern, then \<open>.*?\b\d{5}-?\d{3}\b\<close>\<close>
  "rx_address_cep = rx_seq [rx_address, Rep False 0 None Dot, rx_cep_token]"

definition rx_date_with :: "char \<Rightarrow> rx" where
  \<comment> \<open>\<open>\d{1,2}/\d{1,2}/\d{2,4}\<close>, and the same with \<open>-\<close>\<close>
  "rx_date_with sep =
     rx_seq [rx_range 1 2 rx_d, Lit sep, rx_range 1 2 rx_d, Lit sep, rx_range 2 4 rx_d]"

definition rx_decimal :: rx where
  \<comment> \<open>\<open>\d+[.,]\d{2}\<close>\<close>
  "rx_decimal = rx_seq [rx_plus rx_d, Cls [ILit CHR ''.'', ILit CHR '',''], rx_times 2 rx_d]"

definition rx_currency :: rx where
  \<comment> \<open>\<open>R\$\s?\d+[.,]\d{2}\<close>\<close>
  "rx_currency = rx_seq [Lit CHR ''R'', Lit CHR ''$'', rx_opt rx_s, rx_decimal]"

definition preco_cedilla :: string where
  "preco_cedilla = ''pre'' @ [CHR 0xE7] @ ''o''"

definition numero_acute :: string where
  \<comment> \<open>\<open>numero\<close> written with u acute (U+00FA)\<close>
  "numero_acute = ''n'' @ [CHR 0xFA] @ ''mero''"

definition get_regex_patterns :: "string \<Rightarrow> string \<Rightarrow> (rx \<times> string) list" where
  "get_regex_patterns field_name field_description =
     (let field_lower = py_lower field_name;
          desc_lower = py_lower field_description
      in
      (if py_in ''cpf'' field_lower \<or> py_in ''cpf'' desc_lower then [(rx_cpf, ''cpf'')] else []) @
      (if py_in ''cnpj'' field_lower then [(rx_cnpj, ''cnpj'')] else []) @
      (if py_in ''email'' field_lower \<or> py_in ''e-mail'' desc_lower
       then [(rx_seq [Wb, rx_email, Wb], ''email'')] else []) @
      (if py_in ''telefone'' field_lower \<or> py_in ''phone'' field_lower \<or>
          py_in ''celular'' field_lower
       then [(rx_phone, ''phone'')] else []) @
      (if py_in ''cep'' field_lower \<or> py_in ''cep'' desc_lower \<or> py_in ''postal'' desc_lower
       then [(rx_cep_token, ''cep'')] else []) @
      (if is_state_name field_lower then [(rx_seq [Wb, rx_uf_codes, Wb], ''state'')] else []) @
      (if py_in ''cidade'' field_lower \<or> py_in ''city'' field_lower
       then [(rx_city_state, ''city_state'')] else []) @
      (if is_address_name field_lower
       then [(rx_address, ''address''), (rx_address_cep, ''address'')] else []) @
      (if py_in ''data'' field_lower \<or> py_in ''date'' field_lower \<or>
          py_in ''nascimento'' field_lower
       then [(rx_date_with CHR ''/'', ''date''), (rx_date_with CHR ''-'', ''date'')] else []) @
      (if py_in ''valor'' field_lower \<or> py_in preco_cedilla field_lower \<or>
          py_in ''money'' field_lower
       then [(rx_currency, ''currency''), (rx_decimal, ''number'')] else []) @
      (if py_in ''numero'' field_lower \<or> py_in numero_acute field_lower \<or>
          py_in ''number'' field_lower
       then [(rx_plus rx_d, ''number'')] else []))"

primrec groupindex :: "rx \<Rightarrow> string list" where
  \<comment> \<open>the names of the groups of a pattern\<close>
  "groupindex (Lit c) = []"
| "groupindex Dot = []"
| "groupindex (Cls items) = []"
| "groupindex (NCls items) = []"
| "groupindex (Cat a b) = groupindex a @ groupindex b"
| "groupindex (Alt a b) = groupindex a @ groupindex b"
| "groupindex (Rep greedy m n r) = groupindex r"
| "groupindex (Grp name r) = name # groupindex r"
| "groupindex Bol = []"
| "groupindex Eol = []"
| "groupindex Wb = []"

definition matched_text_of :: "string \<Rightarrow> rx \<Rightarrow> rx_found \<Rightarrow> string" where
  \<comment> \<open>the whole match, or the named group that belongs to the field\<close>
  "matched_text_of field_name pattern m =
     (let field_lower = py_lower field_name
      in if ''city'' \<in> set (groupindex pattern) \<and>
            (py_in ''cidade'' field_lower \<or> py_in ''city'' field_lower)
         then m_group m ''city''
         else if ''state'' \<in> set (groupindex pattern) \<and> is_state_name field_lower
         then m_group m ''state''
         else if ''address'' \<in> set (groupindex pattern) \<and> is_address_name field_lower
         then m_group m ''address''
         else m_text m)"

definition regex_candidates :: "processed_data \<Rightarrow> string \<Rightarrow> string \<Rightarrow> candidate list" where
  "regex_candidates data field_name field_description =
     concat (map (\<lambda>(pattern, match_type).
       concat (map (\<lambda>m.
         (let matched_text = matched_text_of field_name pattern m
          in case find (\<lambda>block_info. py_in (py_lower matched_text) (pb_normalized block_info))
                       (processed_blocks data) of
               Some block_info \<Rightarrow>
                 [\<lparr>c_text = matched_text, c_normalized = normalize_text matched_text,
                   c_bbox = pb_bbox block_info, c_score = 0.4, c_method = ''regex'',
                   c_pattern = Some pattern, c_match_type = Some match_type,
                   c_similarity = None, c_final_score = None\<rparr>]
             | None \<Rightarrow> []))
         (re_finditer True pattern (normalized_full_text data))))
       (get_regex_patterns field_name field_description))"

text \<open>
  The arithmetic of numpy on the embeddings, with real numbers. Vectors of one model have
  one length. \<open>argsort\<close> does not say how it orders equal scores; the model keeps them
  in the order of the blocks.
\<close>

definition dot :: "real list \<Rightarrow> real list \<Rightarrow> real" where
  "dot u v = sum_list (map (\<lambda>(a, b). a * b) (zip u v))"

definition norm2 :: "real list \<Rightarrow> real" where
  "norm2 u = sqrt (dot u u)"

definition cosine :: "real list \<Rightarrow> real list \<Rightarrow> real" where
  "cosine block_embedding query_embedding =
     dot block_embedding query_embedding / (norm2 block_embedding * norm2 query_embedding)"

definition argsort :: "real list \<Rightarrow> nat list" where
  "argsort xs = sort_key (\<lambda>i. xs ! i) [0 ..< length xs]"

definition semantic_search ::
  "embedding_model \<Rightarrow> processed_data \<Rightarrow> string \<Rightarrow> string \<Rightarrow> real list \<Rightarrow> nat \<Rightarrow>
   error + candidate list" where
  "semantic_search encode data field_name field_description label_embedding top_k =
     (let query_text = field_name @ '' '' @ field_description
      in case encode [query_text] of
           None \<Rightarrow> Inl EmbeddingFailure
         | Some [] \<Rightarrow> Inl IndexError
         | Some (query_embedding # _) \<Rightarrow>
             if processed_blocks data = [] then Inr []
             else (case encode (map pb_normalized (processed_blocks data)) of
                     None \<Rightarrow> Inl EmbeddingFailure
                   | Some block_embeddings \<Rightarrow>
                       (let similarities = map (\<lambda>e. cosine e query_embedding) block_embeddings;
                            label_similarities = map (\<lambda>e. cosine e label_embedding) block_embeddings;
                            combined_scores = map (\<lambda>(s, l). 0.7 * s + 0.3 * l)
                                                  (zip similarities label_similarities);
                            top_indices = take top_k (rev (argsort combined_scores))
                        in if length block_embeddings \<noteq> length (processed_blocks data)
                           then Inl IndexError
                           else Inr (map (\<lambda>idx.
                                  (let block_info = processed_blocks data ! idx
                                   in \<lparr>c_text = tb_text (pb_original block_info),
                                       c_normalized = pb_normalized block_info,
                                       c_bbox = pb_bbox block_info,
                                       c_score = combined_scores ! idx,
                                       c_method = ''semantic'',
                                       c_pattern = None, c_match_type = None,
                                       c_similarity = Some (similarities ! idx),
                                       c_final_score = None\<rparr>)) top_indices))))"

definition deduplicate_candidates :: "candidate list \<Rightarrow> candidate list" where
  "deduplicate_candidates candidates =
     map snd (fold (\<lambda>cand seen.
                      (let key = c_normalized cand
                       in case dict_get seen key of
                            None \<Rightarrow> dict_set key cand seen
                          | Some old \<Rightarrow> if c_score cand > c_score old
                                        then dict_set key cand seen else seen))
                   candidates [])"

fun generate_fields ::
  "embedding_model \<Rightarrow> processed_data \<Rightarrow> real list \<Rightarrow> nat \<Rightarrow> (string \<times> string) list \<Rightarrow>
   (string \<times> candidate list) list \<Rightarrow> error + (string \<times> candidate list) list" where
  \<comment> \<open>the \<open>for\<close> loop of \<open>generate_candidates\<close> over the fields that remain\<close>
  "generate_fields encode data label_embedding top_k [] candidates = Inr candidates"
| "generate_fields encode data label_embedding top_k ((field_name, field_description) # rest)
       candidates =
     (case semantic_search encode data field_name field_description label_embedding top_k of
        Inl e \<Rightarrow> Inl e
      | Inr semantic_candidates \<Rightarrow>
          (let field_candidates =
                 regex_candidates data field_name field_description @ semantic_candidates;
               deduplicated = deduplicate_candidates field_candidates;
               ranked = sort_key (\<lambda>c. - c_score c) deduplicated
           in generate_fields encode data label_embedding top_k rest
                (dict_set field_name (take top_k ranked) candidates)))"

definition generate_candidates ::
  "embedding_model \<Rightarrow> (string \<times> real list) list \<Rightarrow> processed_data \<Rightarrow> string \<Rightarrow>
   (string \<times> string) list \<Rightarrow> nat \<Rightarrow>
   (error + (string \<times> candidate list) list) \<times> (string \<times> real list) list" where
  \<comment> \<open>the second component is \<open>label_cache\<close> after the call\<close>
  "generate_candidates encode label_cache data label extraction_schema top_k =
     (case dict_get label_cache label of
        Some label_embedding \<Rightarrow>
          (generate_fields encode data label_embedding top_k extraction_schema [], label_cache)
      | None \<Rightarrow>
          (case encode [label] of
             None \<Rightarrow> (Inl EmbeddingFailure, label_cache)
           | Some [] \<Rightarrow> (Inl IndexError, label_cache)
           | Some (label_embedding # _) \<Rightarrow>
               (generate_fields encode data label_embedding top_k extraction_schema [],
                dict_set label label_embedding label_cache)))"

section \<open>Text extractor and orchestrator\<close>

text \<open>
  The two PDF parsers are collaborators outside the code: each maps the bytes of a
  document to its text blocks, or fails (\<open>None\<close>). \<open>TextExtractor.extract\<close> prefers the
  first and falls back to the second; when both fail it raises.
\<close>

type_synonym 'b pdf_parser = "'b \<Rightarrow> text_block list option"

definition text_extract :: "'b pdf_parser \<Rightarrow> 'b pdf_parser \<Rightarrow> 'b \<Rightarrow> error + text_block list" where
  "text_extract extract_pymupdf extract_pdfplumber pdf_bytes =
     (case extract_pymupdf pdf_bytes of
        Some blocks \<Rightarrow> Inr blocks
      | None \<Rightarrow> (case extract_pdfplumber pdf_bytes of
                   Some blocks \<Rightarrow> Inr blocks
                 | None \<Rightarrow> Inl ParsingFailure))"

record extractor_state =
  label_cache :: "(string \<times> real list) list"
  engine :: engine_state

fun score_fields ::
  "(string \<times> string) list \<Rightarrow> (string \<times> candidate list) list \<Rightarrow>
   (string \<times> candidate option) list \<Rightarrow> error + (string \<times> candidate option) list" where
  \<comment> \<open>step 4 of \<open>extract\<close>: the best candidate of each field\<close>
  "score_fields extraction_schema [] field_results = Inr field_results"
| "score_fields extraction_schema ((field_name, field_candidates) # rest) field_results =
     (case dict_get extraction_schema field_name of
        None \<Rightarrow> Inl (KeyError field_name)
      | Some field_description \<Rightarrow>
          score_fields extraction_schema rest
            (dict_set field_name
               (select_best_candidate field_candidates field_name field_description)
               field_results))"

definition pipeline ::
  "embedding_model \<Rightarrow> llm_service \<Rightarrow> extractor_state \<Rightarrow> string \<Rightarrow> (string \<times> string) list \<Rightarrow>
   text_block list \<Rightarrow> (error + (string \<times> json) list) \<times> extractor_state" where
  \<comment> \<open>steps 2 to 5 of \<open>extract\<close>, on the text blocks of the document\<close>
  "pipeline encode service st label extraction_schema text_blocks =
     (let processed = (extract_features text_blocks)
                        \<lparr>full_text := py_join '' '' (map tb_text text_blocks)\<rparr>;
          (generated, cache') = generate_candidates encode (label_cache st) processed label
                                  extraction_schema TOP_K_CANDIDATES;
          st1 = st\<lparr>label_cache := cache'\<rparr>
      in case generated of
           Inl e \<Rightarrow> (Inl e, st1)
         | Inr candidates \<Rightarrow>
             (case score_fields extraction_schema candidates [] of
                Inl e \<Rightarrow> (Inl e, st1)
              | Inr field_results \<Rightarrow>
                  (let (final_values, engine') =
                         process_extraction service (engine st1) field_results label
                           extraction_schema processed
                   in (final_values, st1\<lparr>engine := engine'\<rparr>))))"

definition extract_pdf ::
  "'b pdf_parser \<Rightarrow> 'b pdf_parser \<Rightarrow> embedding_model \<Rightarrow> llm_service \<Rightarrow> extractor_state \<Rightarrow>
   string \<Rightarrow> (string \<times> string) list \<Rightarrow> 'b \<Rightarrow> (error + (string \<times> json) list) \<times> extractor_state" where
  \<comment> \<open>\<open>PDFExtractor.extract\<close>\<close>
  "extract_pdf extract_pymupdf extract_pdfplumber encode service st label extraction_schema
       pdf_bytes =
     (case text_extract extract_pymupdf extract_pdfplumber pdf_bytes of
        Inl e \<Rightarrow> (Inl e, st)
      | Inr text_blocks \<Rightarrow> pipeline encode service st label extraction_schema text_blocks)"

section \<open>Properties of the preprocessor\<close>

lemma group_loop_concat:
  "concat (group_loop d rest gs cur) = concat gs @ cur @ rest"
  by (induction d rest gs cur rule: group_loop.induct) (auto simp: Let_def)

lemma group_loop_no_empty_group:
  "[] \<notin> set gs \<Longrightarrow> cur \<noteq> [] \<Longrightarrow> [] \<notin> set (group_loop d rest gs cur)"
  by (induction d rest gs cur rule: group_loop.induct) (auto simp: Let_def)

lemma group_loop_not_Nil: "group_loop d rest gs cur \<noteq> []"
  by (induction d rest gs cur rule: group_loop.induct) (auto simp: Let_def)

text \<open>
  C10. For every list of blocks and every distance, \<open>group_blocks\<close> returns a partition
  of the input in reading order: the groups, one after the other, are the input sorted
  (stably) by \<open>(bbox[1], bbox[0])\<close>; so every block of the input, counted with its
  multiplicity, is in exactly one group; no group is empty; and the result is empty exactly
  when the input is.
\<close>

theorem group_blocks_partition:
  "concat (group_blocks blocks d) = sort_key (\<lambda>b. (bbox1 b, bbox0 b)) blocks \<and>
   mset (concat (group_blocks blocks d)) = mset blocks \<and>
   [] \<notin> set (group_blocks blocks d) \<and>
   (group_blocks blocks d = []) = (blocks = [])"
proof (cases "blocks = []")
  case True
  then show ?thesis by (simp add: group_blocks_def)
next
  case False
  define sorted_blocks where "sorted_blocks = sort_key (\<lambda>b. (bbox1 b, bbox0 b)) blocks"
  from False have ne: "sorted_blocks \<noteq> []"
    by (metis sorted_blocks_def length_sort length_0_conv)
  have gb: "group_blocks blocks d = group_loop d (tl sorted_blocks) [] [hd sorted_blocks]"
    using False by (simp add: group_blocks_def sorted_blocks_def Let_def)
  have "concat (group_blocks blocks d) = sorted_blocks"
    using ne by (simp add: gb group_loop_concat)
  moreover have "mset sorted_blocks = mset blocks"
    by (simp add: sorted_blocks_def)
  moreover have "[] \<notin> set (group_blocks blocks d)"
    by (simp add: gb group_loop_no_empty_group)
  moreover have "group_blocks blocks d \<noteq> []"
    by (simp add: gb group_loop_not_Nil)
  ultimately show ?thesis
    using False by (simp add: sorted_blocks_def)
qed

definition block_at :: "string \<Rightarrow> real \<Rightarrow> real \<Rightarrow> real \<Rightarrow> real \<Rightarrow> text_block" where
  "block_at t x0 y0 x1 y1 =
     \<lparr>tb_text = t, tb_bbox = (x0, y0, x1, y1), tb_font = None, tb_size = None\<rparr>"

theorem group_blocks_partition_witness:
  "group_blocks [block_at ''b'' 100 10 150 20, block_at ''c'' 0 50 40 60,
                 block_at ''a'' 0 10 50 20] 20 =
     [[block_at ''a'' 0 10 50 20], [block_at ''b'' 100 10 150 20], [block_at ''c'' 0 50 40 60]] \<and>
   concat (group_blocks [block_at ''b'' 100 10 150 20, block_at ''c'' 0 50 40 60,
                         block_at ''a'' 0 10 50 20] 20) =
     [block_at ''a'' 0 10 50 20, block_at ''b'' 100 10 150 20, block_at ''c'' 0 50 40 60]"
  using group_blocks_partition [of "[block_at ''b'' 100 10 150 20, block_at ''c'' 0 50 40 60,
                                      block_at ''a'' 0 10 50 20]" 20]
  by (simp add: group_blocks_def block_at_def bbox0_def bbox1_def bbox2_def Let_def)

text \<open>
  C4. Text normalization is not idempotent. The whitespace runs are collapsed before the
  special characters are removed, so removing a character between two spaces leaves two
  spaces, which a second normalization collapses: \<open>a @ b\<close> becomes \<open>a\<close>, two spaces,
  \<open>b\<close>, and that becomes \<open>a b\<close>.
\<close>

theorem normalize_text_twice:
  "normalize_text ''a @ b'' = ''a  b'' \<and>
   normalize_text (normalize_text ''a @ b'') = ''a b'' \<and>
   normalize_text (normalize_text ''a @ b'') \<noteq> normalize_text ''a @ b''"
proof -
  have 1: "normalize_text ''a @ b'' = ''a  b''"
    by code_simp
  have 2: "normalize_text ''a  b'' = ''a b''"
    by code_simp
  show ?thesis
    by (simp add: 1 2)
qed

section \<open>Properties of dictionaries\<close>

lemma dict_keys_dict_set:
  "dict_keys (dict_set k v d) = (if k \<in> set (dict_keys d) then dict_keys d else dict_keys d @ [k])"
proof -
  have "map fst (map (\<lambda>kv. if fst kv = k then (k, v) else kv) d) = map fst d"
    by (induction d) auto
  then show ?thesis
    by (simp add: dict_set_def dict_keys_def)
qed

lemma set_dict_keys_dict_set [simp]:
  "set (dict_keys (dict_set k v d)) = insert k (set (dict_keys d))"
  by (auto simp: dict_keys_dict_set)

lemma map_of_replace:
  "map_of (map (\<lambda>kv. if fst kv = k then (k, v) else kv) d) k' =
     (if k' = k then (if k \<in> fst ` set d then Some v else None) else map_of d k')"
proof (cases "k' = k")
  case True
  have "map_of (map (\<lambda>kv. if fst kv = k then (k, v) else kv) d) k =
          (if k \<in> fst ` set d then Some v else None)"
    by (induction d) force+
  with True show ?thesis by simp
next
  case False
  then have "map_of (map (\<lambda>kv. if fst kv = k then (k, v) else kv) d) k' = map_of d k'"
    by (induction d) auto
  with False show ?thesis by simp
qed

lemma dict_get_dict_set [simp]:
  "dict_get (dict_set k v d) k' = (if k' = k then Some v else dict_get d k')"
proof (cases "k \<in> set (dict_keys d)")
  case True
  with map_of_replace [of k v d k'] show ?thesis
    by (simp add: dict_set_def dict_get_def dict_keys_def)
next
  case False
  then have "map_of d k = None"
    by (simp add: dict_keys_def map_of_eq_None_iff)
  with False show ?thesis
    by (auto simp: dict_set_def dict_get_def map_add_def split: option.splits)
qed

lemma dict_get_None_iff: "dict_get d k = None \<longleftrightarrow> k \<notin> set (dict_keys d)"
  by (simp add: dict_get_def dict_keys_def map_of_eq_None_iff)

lemma set_dict_keys_fold:
  "set (dict_keys (fold (\<lambda>kv acc. dict_set (fst kv) (snd kv) acc) other d)) =
     set (dict_keys d) \<union> fst ` set other"
  by (induction other arbitrary: d) auto

lemma set_dict_keys_dict_update:
  "set (dict_keys (dict_update d other)) = set (dict_keys d) \<union> set (dict_keys other)"
  by (simp add: dict_update_def set_dict_keys_fold dict_keys_def[of other])

lemma dict_get_fold_notin:
  "k \<notin> fst ` set other \<Longrightarrow>
   dict_get (fold (\<lambda>kv acc. dict_set (fst kv) (snd kv) acc) other d) k = dict_get d k"
  by (induction other arbitrary: d) auto

lemma dict_get_dict_update_notin:
  "k \<notin> set (dict_keys other) \<Longrightarrow> dict_get (dict_update d other) k = dict_get d k"
  by (simp add: dict_update_def dict_get_fold_notin dict_keys_def)

lemma dict_get_fold_distinct:
  "distinct (map fst other) \<Longrightarrow> (k, v) \<in> set other \<Longrightarrow>
   dict_get (fold (\<lambda>kv acc. dict_set (fst kv) (snd kv) acc) other d) k = Some v"
proof (induction other arbitrary: d)
  case Nil
  then show ?case by simp
next
  case (Cons kv other)
  show ?case
  proof (cases "(k, v) \<in> set other")
    case True
    with Cons show ?thesis by simp
  next
    case False
    with Cons.prems have kv: "kv = (k, v)"
      by auto
    from Cons.prems(1) have "fst kv \<notin> fst ` set other"
      by simp
    with kv have "k \<notin> fst ` set other"
      by simp
    with kv show ?thesis
      by (simp add: dict_get_fold_notin)
  qed
qed

lemma dict_get_dict_update_distinct:
  "distinct (dict_keys other) \<Longrightarrow> (k, v) \<in> set other \<Longrightarrow>
   dict_get (dict_update d other) k = Some v"
  by (simp add: dict_update_def dict_get_fold_distinct dict_keys_def)

section \<open>Properties of the decision engine\<close>

text \<open>
  A field is routed to the fallback batch when it has no candidate, or when its score is
  below \<open>T_LOW\<close> and the deterministic override fails.
\<close>

definition routed_to_fallback :: "string \<Rightarrow> candidate option \<Rightarrow> bool" where
  "routed_to_fallback f r = (case r of None \<Rightarrow> True
     | Some c \<Rightarrow> final_score c < T_LOW \<and> \<not> deterministic_accept f (c_text c))"

lemma T_LOW_less_HIGH: "T_LOW < T_HIGH" by (simp add: T_LOW_def T_HIGH_def)

lemma classify_pending:
  "snd (classify_fields schema frs fv pend) = pend @ map fst (filter (\<lambda>(f, r). routed_to_fallback f r) frs)"
proof (induction schema frs fv pend rule: classify_fields.induct)
  case (1 schema fv pend)
  then show ?case by simp
next
  case (2 schema f rest fv pend)
  then show ?case by (simp add: routed_to_fallback_def)
next
  case (3 schema f c rest fv pend)
  then show ?case
    using T_LOW_less_HIGH by (auto simp: routed_to_fallback_def Let_def)
qed

definition accepted_value :: "(string \<times> string) list \<Rightarrow> string \<Rightarrow> candidate \<Rightarrow> json" where
  "accepted_value schema f c =
     (let score = final_score c in
      if score \<ge> T_HIGH then JStr (normalize_value (c_text c) f)
      else if score \<ge> T_LOW
      then JStr (normalize_with_mini_model (c_text c) f
                   (case dict_get schema f of None \<Rightarrow> [] | Some d \<Rightarrow> d))
      else JStr (normalize_value (c_text c) f))"

lemma normalize_with_mini_model_eq:
  "normalize_with_mini_model v f d = normalize_value v f"
  by (simp add: normalize_with_mini_model_def Let_def)

lemma classify_values_notin:
  "f \<notin> fst ` set frs \<Longrightarrow> dict_get (fst (classify_fields schema frs fv pend)) f = dict_get fv f"
  by (induction schema frs fv pend rule: classify_fields.induct) (auto simp: Let_def)

lemma classify_values_accepted:
  "distinct (map fst frs) \<Longrightarrow> (f, Some c) \<in> set frs \<Longrightarrow> \<not> routed_to_fallback f (Some c) \<Longrightarrow>
   dict_get (fst (classify_fields schema frs fv pend)) f = Some (accepted_value schema f c)"
proof (induction schema frs fv pend rule: classify_fields.induct)
  case (1 schema fv pend)
  then show ?case by simp
next
  case (2 schema g rest fv pend)
  then show ?case by auto
next
  case (3 schema g c' rest fv pend)
  show ?case
  proof (cases "(f, Some c) \<in> set rest")
    case True
    with 3 show ?thesis by (auto simp: Let_def)
  next
    case False
    with "3.prems" have eq: "g = f" "c' = c" and notin: "f \<notin> fst ` set rest"
      by auto
    from "3.prems"(3) show ?thesis
      unfolding eq
      by (auto simp: Let_def classify_values_notin [OF notin] accepted_value_def
                     routed_to_fallback_def)
  qed
qed

lemma classify_values_routed:
  "distinct (map fst frs) \<Longrightarrow> (f, r) \<in> set frs \<Longrightarrow> routed_to_fallback f r \<Longrightarrow>
   dict_get (fst (classify_fields schema frs fv pend)) f = dict_get fv f"
proof (induction schema frs fv pend rule: classify_fields.induct)
  case (1 schema fv pend)
  then show ?case by simp
next
  case (2 schema g rest fv pend)
  then show ?case by (auto simp: classify_values_notin)
next
  case (3 schema g c' rest fv pend)
  show ?case
  proof (cases "(f, r) \<in> set rest")
    case True
    with "3.prems" have "g \<noteq> f" by force
    with True 3 show ?thesis by (auto simp: Let_def)
  next
    case False
    with "3.prems" have eq: "g = f" "r = Some c'" and notin: "f \<notin> fst ` set rest"
      by auto
    from "3.prems"(3) T_LOW_less_HIGH show ?thesis
      unfolding eq
      by (auto simp: Let_def classify_values_notin [OF notin] routed_to_fallback_def)
  qed
qed

lemma classify_keys:
  "set (dict_keys (fst (classify_fields schema frs fv pend))) \<union>
   set (snd (classify_fields schema frs fv pend)) =
   set (dict_keys fv) \<union> set pend \<union> fst ` set frs"
  by (induction schema frs fv pend rule: classify_fields.induct) (auto simp: Let_def)


lemma pending_schema_of_ok:
  "set pend \<subseteq> set (dict_keys schema) \<Longrightarrow>
   \<exists>ps. pending_schema_of schema pend acc = Inr ps \<and>
        set (dict_keys ps) = set (dict_keys acc) \<union> set pend \<and>
        (distinct (dict_keys acc) \<longrightarrow> distinct (dict_keys ps))"
proof (induction pend arbitrary: acc)
  case Nil
  then show ?case by simp
next
  case (Cons f pend)
  from Cons.prems have "dict_get schema f \<noteq> None"
    by (simp add: dict_get_None_iff)
  then obtain d where d: "dict_get schema f = Some d"
    by blast
  from Cons.prems have "set pend \<subseteq> set (dict_keys schema)"
    by simp
  from Cons.IH [OF this, of "dict_set f d acc"] d show ?case
    by (auto simp: dict_keys_dict_set)
qed

lemma pending_schema_of_KeyError:
  "\<not> set pend \<subseteq> set (dict_keys schema) \<Longrightarrow> \<exists>f. pending_schema_of schema pend acc = Inl (KeyError f)"
proof (induction pend arbitrary: acc)
  case Nil
  then show ?case by simp
next
  case (Cons f pend)
  show ?case
  proof (cases "dict_get schema f")
    case None
    then show ?thesis by simp
  next
    case (Some d)
    then have "f \<in> set (dict_keys schema)"
      using dict_get_None_iff [of schema f] by simp
    with Cons.prems have "\<not> set pend \<subseteq> set (dict_keys schema)"
      by simp
    from Cons.IH [OF this] Some show ?thesis
      by simp
  qed
qed

lemma ensure_fields_get:
  "dict_get (ensure_fields fs results) k =
     (if k \<in> set (dict_keys results) then dict_get results k
      else if k \<in> set fs then Some (JStr []) else None)"
  unfolding ensure_fields_def
proof (induction fs arbitrary: results)
  case Nil
  then show ?case by (simp add: dict_get_None_iff)
next
  case (Cons f fs)
  show ?case
    by (simp add: Cons.IH)
qed

lemma extract_fields_state:
  "snd (extract_fields service st label flds text ctx) =
     st\<lparr>llm_calls := llm_calls st @
        [\<lparr>rq_label = label, rq_fields = flds, rq_document_text = text,
          rq_extracted_context = ctx\<rparr>]\<rparr>"
  by (simp add: extract_fields_def Let_def split: option.splits)

lemma extract_fields_failure:
  "service \<lparr>rq_label = label, rq_fields = flds, rq_document_text = text,
            rq_extracted_context = ctx\<rparr> = None \<Longrightarrow>
   fst (extract_fields service st label flds text ctx) = map (\<lambda>f. (f, JStr [])) (dict_keys flds)"
  by (simp add: extract_fields_def Let_def)

lemma extract_fields_success:
  "service \<lparr>rq_label = label, rq_fields = flds, rq_document_text = text,
            rq_extracted_context = ctx\<rparr> = Some results \<Longrightarrow>
   fst (extract_fields service st label flds text ctx) = ensure_fields (dict_keys flds) results"
  by (simp add: extract_fields_def Let_def)

lemma dict_get_empty_strings:
  "dict_get (map (\<lambda>f. (f, JStr [])) fs) k = (if k \<in> set fs then Some (JStr []) else None)"
  by (induction fs) (auto simp: dict_get_def)

lemma extract_fields_get:
  "f \<in> set (dict_keys flds) \<Longrightarrow>
   dict_get (fst (extract_fields service st label flds text ctx)) f =
     (case service \<lparr>rq_label = label, rq_fields = flds, rq_document_text = text,
                    rq_extracted_context = ctx\<rparr> of
        None \<Rightarrow> Some (JStr [])
      | Some results \<Rightarrow> if f \<in> set (dict_keys results) then dict_get results f else Some (JStr []))"
  by (auto simp: extract_fields_failure extract_fields_success ensure_fields_get
                 dict_get_empty_strings split: option.splits)

definition text_snippet :: "processed_data \<Rightarrow> string" where
  "text_snippet data = (if length (full_text data) > 3000 then take 3000 (full_text data) else full_text data)"

definition pending_of :: "(string \<times> candidate option) list \<Rightarrow> string list" where
  "pending_of frs = map fst (filter (\<lambda>(f, r). routed_to_fallback f r) frs)"

lemma classify_pending_of: "snd (classify_fields schema frs [] []) = pending_of frs"
  by (simp add: classify_pending pending_of_def)

lemma pending_of_subset: "set (pending_of frs) \<subseteq> fst ` set frs"
  by (auto simp: pending_of_def)

lemma process_extraction_no_pending:
  "pending_of frs = [] \<Longrightarrow>
   process_extraction service st frs label schema data =
     (Inr (fst (classify_fields schema frs [] [])), st\<lparr>used_llm_last_call := False\<rparr>)"
  using classify_pending_of [of schema frs]
  by (simp add: process_extraction_def Let_def split_beta)

lemma process_extraction_pending:
  assumes keys: "fst ` set frs \<subseteq> set (dict_keys schema)"
    and pend: "pending_of frs \<noteq> []"
  shows "\<exists>ps. pending_schema_of schema (pending_of frs) [] = Inr ps \<and>
          set (dict_keys ps) = set (pending_of frs) \<and> distinct (dict_keys ps) \<and>
          process_extraction service st frs label schema data =
            (Inr (dict_update (fst (classify_fields schema frs [] []))
                    (fst (extract_fields service (st\<lparr>used_llm_last_call := False\<rparr>) label ps
                            (text_snippet data) (fst (classify_fields schema frs [] []))))),
             st\<lparr>used_llm_last_call := True,
                llm_calls := llm_calls st @
                  [\<lparr>rq_label = label, rq_fields = ps, rq_document_text = text_snippet data,
                    rq_extracted_context = fst (classify_fields schema frs [] [])\<rparr>]\<rparr>)"
proof -
  from keys pending_of_subset [of frs] have "set (pending_of frs) \<subseteq> set (dict_keys schema)"
    by blast
  from pending_schema_of_ok [OF this, of "[]"] obtain ps
    where ps: "pending_schema_of schema (pending_of frs) [] = Inr ps"
      "set (dict_keys ps) = set (pending_of frs)" "distinct (dict_keys ps)"
    by (auto simp: dict_keys_def)
  obtain out st' where ef: "extract_fields service (st\<lparr>used_llm_last_call := False\<rparr>) label ps
            (text_snippet data) (fst (classify_fields schema frs [] [])) = (out, st')"
    by (cases "extract_fields service (st\<lparr>used_llm_last_call := False\<rparr>) label ps
            (text_snippet data) (fst (classify_fields schema frs [] []))") auto
  from extract_fields_state [of service "st\<lparr>used_llm_last_call := False\<rparr>" label ps
         "text_snippet data" "fst (classify_fields schema frs [] [])"] ef
  have st': "st' = st\<lparr>used_llm_last_call := False,
                llm_calls := llm_calls st @
                  [\<lparr>rq_label = label, rq_fields = ps, rq_document_text = text_snippet data,
                    rq_extracted_context = fst (classify_fields schema frs [] [])\<rparr>]\<rparr>"
    by simp
  have "process_extraction service st frs label schema data =
          (Inr (dict_update (fst (classify_fields schema frs [] [])) out),
           st'\<lparr>used_llm_last_call := True\<rparr>)"
    using pend classify_pending_of [of schema frs] ps(1) ef
    by (simp add: process_extraction_def call_llm_def Let_def text_snippet_def split_beta)
  with ps ef st' show ?thesis
    by simp
qed

text \<open>
  C1. One call of \<open>process_extraction\<close> (on field results whose keys are fields of the
  schema, as \<open>extract\<close> builds them) invokes \<open>extract_fields\<close> exactly once when some
  field is pending, and not at all when none is, however many fields are pending. The
  pending fields are the fields routed to the fallback: absent, or with a score below
  \<open>T_LOW\<close> and a failed override. The flag \<open>used_llm_last_call\<close> records which case it was.
\<close>

theorem fallback_called_at_most_once:
  assumes "fst ` set field_results \<subseteq> set (dict_keys extraction_schema)"
  shows "snd (classify_fields extraction_schema field_results [] []) = pending_of field_results \<and>
         length (llm_calls (snd (process_extraction service st field_results label
                                   extraction_schema data))) =
           length (llm_calls st) + (if pending_of field_results = [] then 0 else 1) \<and>
         used_llm_last_call (snd (process_extraction service st field_results label
                                    extraction_schema data)) =
           (pending_of field_results \<noteq> [])"
proof (cases "pending_of field_results = []")
  case True
  then show ?thesis
    by (simp add: process_extraction_no_pending classify_pending_of)
next
  case False
  from process_extraction_pending [OF assms False, of service st label data] False
  show ?thesis
    by (auto simp: classify_pending_of)
qed

lemma pending_of_iff:
  "distinct (map fst frs) \<Longrightarrow> (f, r) \<in> set frs \<Longrightarrow>
   f \<in> set (pending_of frs) \<longleftrightarrow> routed_to_fallback f r"
proof -
  assume d: "distinct (map fst frs)" and m: "(f, r) \<in> set frs"
  have "f \<in> set (pending_of frs) \<longleftrightarrow> (\<exists>r'. (f, r') \<in> set frs \<and> routed_to_fallback f r')"
    by (auto simp: pending_of_def image_iff)
  moreover have "\<And>r'. (f, r') \<in> set frs \<Longrightarrow> r' = r"
    using d m by (meson eq_key_imp_eq_value)
  ultimately show ?thesis
    using m by blast
qed

text \<open>
  C3, as amended. The thresholds are 0.85 and 0.60. For a field whose best candidate is
  present with a score below 0.60, the engine tests the deterministic override: when it
  holds, the field gets its normalized text and is not pending; when it fails, the field
  is pending and has no value before the fallback. For a score from 0.60 up to 0.85 the
  override is not tested: the field gets its normalized text and is not pending.
\<close>

theorem override_below_T_LOW:
  assumes "distinct (map fst field_results)"
    and "(f, Some c) \<in> set field_results"
    and "final_score c < T_HIGH"
  shows "T_HIGH = 0.85 \<and> T_LOW = 0.60 \<and>
    (final_score c < T_LOW \<longrightarrow>
       (if deterministic_accept f (c_text c)
        then dict_get (fst (classify_fields schema field_results [] [])) f =
               Some (JStr (normalize_value (c_text c) f)) \<and>
             f \<notin> set (snd (classify_fields schema field_results [] []))
        else f \<in> set (snd (classify_fields schema field_results [] [])) \<and>
             dict_get (fst (classify_fields schema field_results [] [])) f = None)) \<and>
    (T_LOW \<le> final_score c \<longrightarrow>
       dict_get (fst (classify_fields schema field_results [] [])) f =
         Some (JStr (normalize_value (c_text c) f)) \<and>
       f \<notin> set (snd (classify_fields schema field_results [] [])))"
proof -
  have routed: "routed_to_fallback f (Some c) \<longleftrightarrow>
                  final_score c < T_LOW \<and> \<not> deterministic_accept f (c_text c)"
    by (simp add: routed_to_fallback_def)
  have pend: "f \<in> set (snd (classify_fields schema field_results [] [])) \<longleftrightarrow>
                routed_to_fallback f (Some c)"
    using pending_of_iff [OF assms(1,2)] by (simp add: classify_pending_of)
  have acc: "\<not> routed_to_fallback f (Some c) \<Longrightarrow>
               dict_get (fst (classify_fields schema field_results [] [])) f =
                 Some (JStr (normalize_value (c_text c) f))"
    using classify_values_accepted [OF assms(1,2), of schema "[]" "[]"]
    by (simp add: accepted_value_def normalize_with_mini_model_eq Let_def)
  have rej: "routed_to_fallback f (Some c) \<Longrightarrow>
               dict_get (fst (classify_fields schema field_results [] [])) f = None"
    using classify_values_routed [OF assms(1,2), of schema "[]" "[]"]
    by (simp add: dict_get_def)
  show ?thesis
    using routed pend acc rej by (auto simp: T_HIGH_def T_LOW_def)
qed

definition medium_candidate :: candidate where
  "medium_candidate =
     \<lparr>c_text = ''Joao Silva'', c_normalized = ''joao silva'', c_bbox = (0, 0, 10, 10),
      c_score = 0.7, c_method = ''semantic'', c_pattern = None, c_match_type = None,
      c_similarity = Some 0.5, c_final_score = Some 0.7\<rparr>"

lemma deterministic_accept_nome: "\<not> deterministic_accept ''nome'' ''Joao Silva''"
  by code_simp

lemma normalize_value_nome: "normalize_value ''Joao Silva'' ''nome'' = ''Joao Silva''"
  by code_simp

text \<open>
  C3 as stated fails: a candidate with score 0.7, below 0.85, whose override fails is
  accepted, and nothing is pending.
\<close>

theorem medium_score_skips_override:
  "final_score medium_candidate < 0.85 \<and>
   \<not> deterministic_accept ''nome'' (c_text medium_candidate) \<and>
   classify_fields [(''nome'', ''nome do cliente'')] [(''nome'', Some medium_candidate)] [] [] =
     ([(''nome'', JStr ''Joao Silva'')], [])"
  by (simp add: medium_candidate_def final_score_def deterministic_accept_nome
        normalize_value_nome normalize_with_mini_model_eq T_HIGH_def T_LOW_def dict_set_def
        dict_keys_def)

lemma process_extraction_returns:
  assumes "fst ` set frs \<subseteq> set (dict_keys schema)"
  shows "\<exists>m. fst (process_extraction service st frs label schema data) = Inr m"
proof (cases "pending_of frs = []")
  case True
  then show ?thesis by (simp add: process_extraction_no_pending)
next
  case False
  from process_extraction_pending [OF assms False, of service st label data]
  show ?thesis by auto
qed

lemma process_extraction_failed_service:
  assumes keys: "fst ` set frs \<subseteq> set (dict_keys schema)"
    and fail: "\<And>rq. service rq = None"
    and f: "f \<in> set (pending_of frs)"
  shows "\<exists>m. fst (process_extraction service st frs label schema data) = Inr m \<and>
             dict_get m f = Some (JStr [])"
proof -
  from f have ne: "pending_of frs \<noteq> []" by auto
  from process_extraction_pending [OF keys ne, of service st label data] obtain ps
    where ps: "set (dict_keys ps) = set (pending_of frs)" "distinct (dict_keys ps)"
      and pe: "fst (process_extraction service st frs label schema data) =
            Inr (dict_update (fst (classify_fields schema frs [] []))
                    (fst (extract_fields service (st\<lparr>used_llm_last_call := False\<rparr>) label ps
                            (text_snippet data) (fst (classify_fields schema frs [] [])))))"
    by auto
  let ?out = "map (\<lambda>f. (f, JStr [])) (dict_keys ps)"
  have out: "fst (extract_fields service (st\<lparr>used_llm_last_call := False\<rparr>) label ps
                 (text_snippet data) (fst (classify_fields schema frs [] []))) = ?out"
    by (rule extract_fields_failure) (rule fail)
  have "distinct (dict_keys ?out)"
    using ps(2) by (simp add: dict_keys_def comp_def)
  moreover have "(f, JStr []) \<in> set ?out"
    using f ps(1) by auto
  ultimately have "dict_get (dict_update (fst (classify_fields schema frs [] [])) ?out) f =
                     Some (JStr [])"
    by (rule dict_get_dict_update_distinct)
  with pe out show ?thesis by simp
qed

text \<open>
  C8. When the call of the service fails, \<open>extract_fields\<close> returns the empty string for
  every field it was asked; when the call succeeds, every field asked has a value: the one
  of the reply, or the empty string when the reply does not have the field. And
  \<open>process_extraction\<close> returns a mapping whatever the service does: with a failing
  service, every pending field is mapped to the empty string.
\<close>

theorem fallback_failure_degrades:
  "(service \<lparr>rq_label = label, rq_fields = flds, rq_document_text = text,
             rq_extracted_context = ctx\<rparr> = None \<longrightarrow>
      fst (extract_fields service st label flds text ctx) =
        map (\<lambda>f. (f, JStr [])) (dict_keys flds)) \<and>
   (\<forall>results f.
      service \<lparr>rq_label = label, rq_fields = flds, rq_document_text = text,
               rq_extracted_context = ctx\<rparr> = Some results \<and> f \<in> set (dict_keys flds) \<longrightarrow>
      dict_get (fst (extract_fields service st label flds text ctx)) f =
        (if f \<in> set (dict_keys results) then dict_get results f else Some (JStr []))) \<and>
   (fst ` set field_results \<subseteq> set (dict_keys extraction_schema) \<longrightarrow>
      (\<exists>m. fst (process_extraction service st' field_results label extraction_schema data) =
             Inr m \<and>
           ((\<forall>rq. service rq = None) \<longrightarrow>
              (\<forall>f \<in> set (pending_of field_results). dict_get m f = Some (JStr [])))))"
proof (intro conjI impI allI)
  assume "service \<lparr>rq_label = label, rq_fields = flds, rq_document_text = text,
             rq_extracted_context = ctx\<rparr> = None"
  then show "fst (extract_fields service st label flds text ctx) =
        map (\<lambda>f. (f, JStr [])) (dict_keys flds)"
    by (rule extract_fields_failure)
next
  fix results f
  assume "service \<lparr>rq_label = label, rq_fields = flds, rq_document_text = text,
               rq_extracted_context = ctx\<rparr> = Some results \<and> f \<in> set (dict_keys flds)"
  then show "dict_get (fst (extract_fields service st label flds text ctx)) f =
        (if f \<in> set (dict_keys results) then dict_get results f else Some (JStr []))"
    by (simp add: extract_fields_get)
next
  assume keys: "fst ` set field_results \<subseteq> set (dict_keys extraction_schema)"
  from process_extraction_returns [OF keys, of service st' label data] obtain m
    where m: "fst (process_extraction service st' field_results label extraction_schema data) =
             Inr m"
    by blast
  have "(\<forall>rq. service rq = None) \<longrightarrow>
              (\<forall>f \<in> set (pending_of field_results). dict_get m f = Some (JStr []))"
  proof (intro impI ballI)
    fix f
    assume "\<forall>rq. service rq = None" and "f \<in> set (pending_of field_results)"
    with process_extraction_failed_service [OF keys, of service f st' label data] m
    show "dict_get m f = Some (JStr [])"
      by auto
  qed
  with m show "\<exists>m. fst (process_extraction service st' field_results label extraction_schema
                          data) = Inr m \<and>
           ((\<forall>rq. service rq = None) \<longrightarrow>
              (\<forall>f \<in> set (pending_of field_results). dict_get m f = Some (JStr [])))"
    by blast
qed

definition low_candidate :: "string \<Rightarrow> candidate" where
  "low_candidate t =
     \<lparr>c_text = t, c_normalized = normalize_text t, c_bbox = (0, 0, 10, 10),
      c_score = 0.4, c_method = ''regex'', c_pattern = None, c_match_type = None,
      c_similarity = None, c_final_score = Some 0.5\<rparr>"

definition fresh_engine :: engine_state where
  "fresh_engine = \<lparr>used_llm_last_call = False, llm_calls = []\<rparr>"

definition no_text :: processed_data where
  "no_text = extract_features []"

definition two_fields :: "(string \<times> string) list" where
  "two_fields = [(''cidade'', ''cidade do destinatario''), (''nome'', ''nome do cliente'')]"

lemma low_candidate_score: "final_score (low_candidate t) = 0.5"
  by (simp add: low_candidate_def final_score_def)

lemma low_candidate_text: "c_text (low_candidate t) = t"
  by (simp add: low_candidate_def)

lemma routed_nome: "routed_to_fallback ''nome'' (Some (low_candidate ''Joao Silva''))"
  by (simp add: routed_to_fallback_def low_candidate_score low_candidate_text T_LOW_def
        deterministic_accept_nome)

theorem fallback_called_at_most_once_witness:
  "pending_of [(''cidade'', None), (''nome'', Some (low_candidate ''Joao Silva''))] =
     [''cidade'', ''nome''] \<and>
   length (llm_calls (snd (process_extraction (\<lambda>rq. None) fresh_engine
       [(''cidade'', None), (''nome'', Some (low_candidate ''Joao Silva''))] ''fatura''
       two_fields no_text))) = 1"
  using fallback_called_at_most_once [of
      "[(''cidade'', None), (''nome'', Some (low_candidate ''Joao Silva''))]" two_fields
      "\<lambda>rq. None" fresh_engine "''fatura''" no_text]
  by (simp add: pending_of_def routed_nome routed_to_fallback_def two_fields_def dict_keys_def
        fresh_engine_def low_candidate_score low_candidate_text T_LOW_def T_HIGH_def
        deterministic_accept_nome)

lemma deterministic_accept_cpf: "deterministic_accept ''cpf'' ''123.456.789-09''"
  by code_simp

lemma normalize_value_cpf: "normalize_value ''123.456.789-09'' ''cpf'' = ''123.456.789-09''"
  by code_simp

theorem override_below_T_LOW_witness:
  "final_score (low_candidate ''123.456.789-09'') < T_LOW \<and>
   deterministic_accept ''cpf'' ''123.456.789-09'' \<and>
   classify_fields [(''cpf'', ''numero do CPF'')]
     [(''cpf'', Some (low_candidate ''123.456.789-09''))] [] [] =
     ([(''cpf'', JStr ''123.456.789-09'')], []) \<and>
   dict_get (fst (classify_fields [(''cpf'', ''numero do CPF'')]
     [(''cpf'', Some (low_candidate ''123.456.789-09''))] [] [])) ''cpf'' =
     Some (JStr ''123.456.789-09'')"
  using override_below_T_LOW [of "[(''cpf'', Some (low_candidate ''123.456.789-09''))]"
      "''cpf''" "low_candidate ''123.456.789-09''" "[(''cpf'', ''numero do CPF'')]"]
  by (simp add: low_candidate_score low_candidate_text T_LOW_def T_HIGH_def
        deterministic_accept_cpf normalize_value_cpf dict_set_def dict_keys_def)

lemma pending_of_example:
  "pending_of [(''cidade'', None), (''nome'', Some (low_candidate ''Joao Silva''))] =
     [''cidade'', ''nome'']"
  using routed_nome by (simp add: pending_of_def routed_to_fallback_def)

theorem fallback_failure_degrades_witness:
  "fst (extract_fields (\<lambda>rq. None) fresh_engine ''fatura'' two_fields [] []) =
     [(''cidade'', JStr []), (''nome'', JStr [])] \<and>
   (\<exists>m. fst (process_extraction (\<lambda>rq. None) fresh_engine
             [(''cidade'', None), (''nome'', Some (low_candidate ''Joao Silva''))] ''fatura''
             two_fields no_text) = Inr m \<and>
        dict_get m ''cidade'' = Some (JStr []) \<and> dict_get m ''nome'' = Some (JStr []))"
proof -
  have keys: "fst ` set [(''cidade'', None), (''nome'', Some (low_candidate ''Joao Silva''))]
                \<subseteq> set (dict_keys two_fields)"
    by (simp add: two_fields_def dict_keys_def)
  from fallback_failure_degrades [of "\<lambda>rq. None" "''fatura''" two_fields "[]" "[]" fresh_engine
      "[(''cidade'', None), (''nome'', Some (low_candidate ''Joao Silva''))]" two_fields
      fresh_engine no_text] keys
  show ?thesis
    by (simp add: pending_of_example) (simp add: two_fields_def dict_keys_def)
qed

end
